theory Spec2Isabelle
  imports Main "HOL-Library.Word"
begin

section \<open>The UpscaleIMG node: a shallow embedding of \<open>UpscaleImg.execute\<close>\<close>

text \<open>
  The node (\<^verbatim>\<open>nodes/UpscaleImg/UpscaleImg.node.ts\<close>) is one method, \<^verbatim>\<open>execute\<close>, that
  runs against the functions of its host (\<^verbatim>\<open>this: IExecuteFunctions\<close>).  The embedding
  follows the static types of the source: a value that the source casts with \<^verbatim>\<open>as T\<close> is
  a value of the HOL counterpart of \<^verbatim>\<open>T\<close>; a property that may be \<^verbatim>\<open>undefined\<close> is an
  \<open>option\<close>.  A thrown \<^verbatim>\<open>Error\<close> is the left summand of a sum type.
\<close>

subsection \<open>Data\<close>

type_synonym buffer = "8 word list"

text \<open>
  A parameter of type \<^verbatim>\<open>number\<close>.  The node does one thing with such a number: it applies
  \<^verbatim>\<open>String\<close> to it.  JavaScript prints a safe integer (one of absolute value at most
  \<^verbatim>\<open>Number.MAX_SAFE_INTEGER\<close>, which is \<^verbatim>\<open>2**53 - 1\<close>) as its decimal numeral.  Every other
  number (a non-integer, an integer beyond the safe range, \<^verbatim>\<open>NaN\<close>, an infinity) is given
  here by the string that \<^verbatim>\<open>String\<close> yields for it: \<^verbatim>\<open>1e21\<close> is \<open>OtherNumber ''1e+21''\<close>,
  \<^verbatim>\<open>1920.5\<close> is \<open>OtherNumber ''1920.5''\<close>.
\<close>

definition MAX_SAFE_INTEGER :: int where
  "MAX_SAFE_INTEGER = 9007199254740991"

typedef safe_integer = "{n :: int. - MAX_SAFE_INTEGER \<le> n \<and> n \<le> MAX_SAFE_INTEGER}"
  by (rule exI [of _ 0]) (simp add: MAX_SAFE_INTEGER_def)

datatype number =
    SafeInteger safe_integer
  | OtherNumber string

text \<open>The number with the integer value \<open>n\<close>, for \<open>n\<close> in the safe range.\<close>

definition safe :: "int \<Rightarrow> number" where
  "safe n = SafeInteger (Abs_safe_integer n)"

text \<open>A thrown JavaScript \<^verbatim>\<open>Error\<close>; the node reads only its \<^verbatim>\<open>message\<close>.\<close>

datatype error = Error (message: string)

text \<open>JSON data (\<^verbatim>\<open>IDataObject\<close>): an object is its list of keys and values, in order.\<close>

datatype json_value =
    JNumber int
  | JString string
  | JObject "(string \<times> json_value) list"

text \<open>
  \<^verbatim>\<open>IBinaryData\<close>, the fields the node reads.  \<open>bd_fileName\<close> and \<open>bd_mimeType\<close> are the
  properties \<^verbatim>\<open>fileName\<close> and \<^verbatim>\<open>mimeType\<close>; \<open>None\<close> is \<^verbatim>\<open>undefined\<close>.
\<close>

record binary_data =
  bd_data :: string
  bd_mimeType :: "string option"
  bd_fileName :: "string option"

record paired_item =
  item :: nat

text \<open>
  \<^verbatim>\<open>INodeExecutionData\<close>.  \<open>binary = None\<close> is an entry that has no \<^verbatim>\<open>binary\<close> key; a
  present \<^verbatim>\<open>binary\<close> object is the list of its keys and attachments.
\<close>

record node_execution_data =
  json :: "(string \<times> json_value) list"
  binary :: "(string \<times> binary_data) list option"
  pairedItem :: "paired_item option"

text \<open>
  The parameter \<^verbatim>\<open>options\<close> (a collection; every member may be unset).
\<close>

record options =
  outputFormat :: "string option"
  removeMetadata :: "bool option"
  outputBinaryPropertyName :: "string option"

record credentials =
  apiKey :: string

text \<open>
  A multipart form (\<^verbatim>\<open>FormData\<close> of the package form-data) is the list of the parts
  appended to it, in order: a file part carries its bytes with the \<^verbatim>\<open>filename\<close> and
  \<^verbatim>\<open>contentType\<close> it is tagged with, a plain field carries a string.
\<close>

datatype form_value =
    FileValue buffer (filename: string) (contentType: string)
  | TextValue string

type_synonym form_data = "(string \<times> form_value) list"

definition form_append :: "form_data \<Rightarrow> string \<Rightarrow> form_value \<Rightarrow> form_data" where
  "form_append form field v = form @ [(field, v)]"

text \<open>All values appended to a form under one field name, in order.\<close>

definition getAll :: "form_data \<Rightarrow> string \<Rightarrow> form_value list" where
  "getAll form field = map snd (filter (\<lambda>p. fst p = field) form)"

text \<open>\<^verbatim>\<open>IHttpRequestOptions\<close>, the members the node sets (\<open>http_method\<close> is the
  member \<^verbatim>\<open>method\<close>).\<close>

record http_request_options =
  http_method :: string
  url :: string
  headers :: "(string \<times> string) list"
  body :: "form_data option"
  encoding :: "string option"

text \<open>
  The response of the upscale endpoint, at the type the source casts it to.  The node
  reads the members of \<^verbatim>\<open>result\<close> one by one (\<open>r_size\<close> is \<^verbatim>\<open>result.size\<close> and so on) and
  hands \<^verbatim>\<open>original\<close> on as it is, so \<open>original\<close> is any JSON value.  The numbers of
  \<^verbatim>\<open>result\<close> (a byte count and pixel counts) are copied into the output and never
  printed, so they are integers here.
\<close>

record upscale_result =
  r_size :: int
  r_width :: int
  r_height :: int
  r_mimeType :: string
  r_fileExt :: string
  r_url :: string

record upscale_response =
  original :: json_value
  result :: upscale_result

record inode =
  node_name :: string

text \<open>
  \<^verbatim>\<open>new NodeOperationError(node, error, {itemIndex})\<close>: the class belongs to the host's
  library, so the value is the triple of the constructor's arguments.
\<close>

datatype node_operation_error =
  NodeOperationError (err_node: inode) (cause: error) (itemIndex: nat)

subsection \<open>The host\<close>

text \<open>
  \<^verbatim>\<open>IExecuteFunctions\<close>, the members \<^verbatim>\<open>execute\<close> calls.  Each call either throws
  (\<open>Inl\<close>) or returns (\<open>Inr\<close>).
  \<^item> \<^verbatim>\<open>getNodeParameter(name, i)\<close> appears at the three types the source casts its
    result to (\<^verbatim>\<open>as string\<close>, \<^verbatim>\<open>as number\<close>, \<^verbatim>\<open>as IDataObject\<close>).
  \<^item> \<^verbatim>\<open>helpers.httpRequest\<close> appears at the two types the source casts its result to:
    the parsed response of the upload, and the bytes of the download.
  \<^item> \<^verbatim>\<open>getCredentials\<close>, \<^verbatim>\<open>helpers.httpRequest\<close> and \<^verbatim>\<open>helpers.prepareBinaryData\<close>
    take no item index in the source.  Here they take, as their first argument, the
    index of the item during whose processing they are called, so that a host may
    answer the same request differently from one item to the next.
  \<^item> \<open>continueOnFail\<close> is the answer of \<^verbatim>\<open>this.continueOnFail()\<close>, a flag of the run, and
    \<open>getNode\<close> the answer of \<^verbatim>\<open>this.getNode()\<close>.
\<close>

record execute_functions =
  getInputData :: "node_execution_data list"
  getNodeParameter_string :: "string \<Rightarrow> nat \<Rightarrow> error + string"
  getNodeParameter_number :: "string \<Rightarrow> nat \<Rightarrow> error + number"
  getNodeParameter_object :: "string \<Rightarrow> nat \<Rightarrow> error + options"
  assertBinaryData :: "nat \<Rightarrow> string \<Rightarrow> error + binary_data"
  getBinaryDataBuffer :: "nat \<Rightarrow> string \<Rightarrow> error + buffer"
  getCredentials :: "nat \<Rightarrow> string \<Rightarrow> error + credentials"
  httpRequest_json :: "nat \<Rightarrow> http_request_options \<Rightarrow> error + upscale_response"
  httpRequest_buffer :: "nat \<Rightarrow> http_request_options \<Rightarrow> error + buffer"
  prepareBinaryData :: "nat \<Rightarrow> buffer \<Rightarrow> string \<Rightarrow> string \<Rightarrow> error + binary_data"
  continueOnFail :: bool
  getNode :: inode

subsection \<open>JavaScript operators used by the node\<close>

text \<open>Sequencing inside \<^verbatim>\<open>try\<close>: the first statement that throws ends the block.\<close>

definition andThen :: "error + 'a \<Rightarrow> ('a \<Rightarrow> error + 'b) \<Rightarrow> error + 'b" where
  "andThen m f = (case m of Inl e \<Rightarrow> Inl e | Inr x \<Rightarrow> f x)"

text \<open>\<^verbatim>\<open>s || d\<close> on an optional string: \<^verbatim>\<open>undefined\<close> and the empty string are falsy.\<close>

definition orElse :: "string option \<Rightarrow> string \<Rightarrow> string" where
  "orElse s d = (case s of None \<Rightarrow> d | Some v \<Rightarrow> if v = [] then d else v)"

text \<open>
  \<^verbatim>\<open>String(n)\<close> of a number: for a safe integer its decimal numeral, with a minus sign
  when it is negative; for any other number the string that stands for it.
\<close>

fun digits :: "nat \<Rightarrow> string" where
  "digits n =
     (if n < 10 then [''0123456789'' ! n]
      else digits (n div 10) @ [''0123456789'' ! (n mod 10)])"

declare digits.simps [simp del]

definition numeral_of :: "int \<Rightarrow> string" where
  "numeral_of n = (if n < 0 then CHR ''-'' # digits (nat (- n)) else digits (nat n))"

fun String_number :: "number \<Rightarrow> string" where
  "String_number (SafeInteger n) = numeral_of (Rep_safe_integer n)"
| "String_number (OtherNumber s) = s"

text \<open>
  \<^verbatim>\<open>s.replace(/\.[^.]+$/, '')\<close>: the pattern is tried at each position from the left; it
  matches at a dot that is followed, up to the end of the string, by one or more
  characters none of which is a dot.  The match runs to the end, so replacing it by the
  empty string leaves the characters before it.  Without a match the string is unchanged.
\<close>

fun replace_ext :: "string \<Rightarrow> string" where
  "replace_ext [] = []"
| "replace_ext (c # cs) =
     (if c = CHR ''.'' \<and> cs \<noteq> [] \<and> CHR ''.'' \<notin> set cs then []
      else c # replace_ext cs)"

subsection \<open>\<open>execute\<close>\<close>

text \<open>
  The locals that are live after the upload request has been built (source lines
  183 to 225) and that the rest of the \<^verbatim>\<open>try\<close> block reads.
\<close>

record prepared =
  p_fileName :: string
  p_options :: options
  p_requestOptions :: http_request_options

text \<open>
  Lines 199 to 209: the fields of the resize mode, appended to the form built so far.
  Any mode other than \<^verbatim>\<open>'scale'\<close> takes the \<^verbatim>\<open>else\<close> branch.
\<close>

definition appendResize ::
  "execute_functions \<Rightarrow> nat \<Rightarrow> string \<Rightarrow> form_data \<Rightarrow> error + form_data" where
  "appendResize this i resizeMode form =
     (if resizeMode = ''scale'' then
        andThen (getNodeParameter_number this ''scale'' i) (\<lambda>scale.
        Inr (form_append form ''scale'' (TextValue (String_number scale))))
      else
        andThen (getNodeParameter_number this ''customWidth'' i) (\<lambda>customWidth.
        andThen (getNodeParameter_number this ''customHeight'' i) (\<lambda>customHeight.
        andThen (getNodeParameter_string this ''objectFit'' i) (\<lambda>objectFit.
        Inr (form_append
              (form_append
                (form_append form ''customWidth'' (TextValue (String_number customWidth)))
                ''customHeight'' (TextValue (String_number customHeight)))
              ''objectFit'' (TextValue objectFit))))))"

text \<open>
  Lines 211 to 216: \<^verbatim>\<open>outputFormat\<close> is appended when it is truthy (set and not
  empty), \<^verbatim>\<open>removeMetadata\<close> when it is not \<^verbatim>\<open>undefined\<close>.
\<close>

definition appendOptions :: "options \<Rightarrow> form_data \<Rightarrow> form_data" where
  "appendOptions opts form =
     (let form' = (case outputFormat opts of
                     None \<Rightarrow> form
                   | Some f \<Rightarrow> if f = [] then form
                              else form_append form ''outputFormat'' (TextValue f))
      in case removeMetadata opts of
           None \<Rightarrow> form'
         | Some b \<Rightarrow> form_append form' ''removeMetadata''
                      (TextValue (if b then ''1'' else ''0'')))"

text \<open>
  Lines 183 to 225 of the source: read the parameters, the attachment and the
  credentials of item \<open>i\<close>, build the form and the options of the upload request.
\<close>

definition prepareRequest :: "execute_functions \<Rightarrow> nat \<Rightarrow> error + prepared" where
  "prepareRequest this i =
     andThen (getNodeParameter_string this ''binaryPropertyName'' i) (\<lambda>binaryPropertyName.
     andThen (getNodeParameter_string this ''resizeMode'' i) (\<lambda>resizeMode.
     andThen (getNodeParameter_object this ''options'' i) (\<lambda>opts.
     andThen (assertBinaryData this i binaryPropertyName) (\<lambda>binaryData.
     andThen (getBinaryDataBuffer this i binaryPropertyName) (\<lambda>binaryBuffer.
     let fileName = orElse (bd_fileName binaryData) ''image.png'';
         mimeType = orElse (bd_mimeType binaryData) ''image/png''
     in
     andThen (getCredentials this i ''upscaleImgApi'') (\<lambda>creds.
     let form = form_append [] ''image'' (FileValue binaryBuffer fileName mimeType) in
     andThen (appendResize this i resizeMode form) (\<lambda>form.
     let form = appendOptions opts form in
     Inr \<lparr> p_fileName = fileName,
           p_options = opts,
           p_requestOptions =
             \<lparr> http_method = ''POST'',
               url = ''https://upscaleimg.app/api/v1/upscale'',
               headers = [(''Authorization'', ''Bearer '' @ apiKey creds)],
               body = Some form,
               encoding = None \<rparr> \<rparr>)))))))"

text \<open>
  Lines 227 to 281: upload, download from the signed URL, name and package the
  result, build the output entry.
\<close>

definition completeItem ::
  "execute_functions \<Rightarrow> nat \<Rightarrow> prepared \<Rightarrow> error + node_execution_data" where
  "completeItem this i p =
     andThen (httpRequest_json this i (p_requestOptions p)) (\<lambda>response.
     let downloadOptions =
           \<lparr> http_method = ''GET'',
             url = r_url (result response),
             headers = [],
             body = None,
             encoding = Some ''arraybuffer'' \<rparr>
     in
     andThen (httpRequest_buffer this i downloadOptions) (\<lambda>imageBuffer.
     let outputBinaryPropertyName' = orElse (outputBinaryPropertyName (p_options p)) ''data'';
         baseName = replace_ext (p_fileName p);
         outputFileName = baseName @ ''_upscaled.'' @ r_fileExt (result response)
     in
     andThen (prepareBinaryData this i imageBuffer outputFileName
                (r_mimeType (result response))) (\<lambda>binaryOutput.
     Inr \<lparr> json =
             [(''original'', original response),
              (''result'', JObject
                 [(''size'', JNumber (r_size (result response))),
                  (''width'', JNumber (r_width (result response))),
                  (''height'', JNumber (r_height (result response))),
                  (''mimeType'', JString (r_mimeType (result response))),
                  (''fileExt'', JString (r_fileExt (result response)))])],
           binary = Some [(outputBinaryPropertyName', binaryOutput)],
           pairedItem = Some \<lparr> item = i \<rparr> \<rparr>)))"

text \<open>The body of the \<^verbatim>\<open>try\<close> block for item \<open>i\<close> (lines 183 to 281).\<close>

definition processItem :: "execute_functions \<Rightarrow> nat \<Rightarrow> error + node_execution_data" where
  "processItem this i = andThen (prepareRequest this i) (completeItem this i)"

text \<open>
  The \<^verbatim>\<open>for\<close> loop with its \<^verbatim>\<open>catch\<close> (lines 181 to 296), from index \<open>i\<close> on with the
  entries pushed so far.  \<open>Inl\<close> is the \<^verbatim>\<open>NodeOperationError\<close> thrown out of \<^verbatim>\<open>execute\<close>.
\<close>

function loop ::
  "execute_functions \<Rightarrow> nat \<Rightarrow> node_execution_data list
     \<Rightarrow> node_operation_error + node_execution_data list" where
  "loop this i returnData =
     (if i < length (getInputData this) then
        (case processItem this i of
           Inr entry \<Rightarrow> loop this (i + 1) (returnData @ [entry])
         | Inl error \<Rightarrow>
             if continueOnFail this then
               loop this (i + 1)
                 (returnData @
                    [\<lparr> json = [(''error'', JString (message error))],
                       binary = None,
                       pairedItem = Some \<lparr> item = i \<rparr> \<rparr>])
             else Inl (NodeOperationError (getNode this) error i))
      else Inr returnData)"
  by pat_completeness auto
termination
  by (relation "measure (\<lambda>(this, i, returnData). length (getInputData this) - i)") auto

declare loop.simps [simp del]

text \<open>\<^verbatim>\<open>execute\<close> (lines 177 to 299): the result is \<^verbatim>\<open>[returnData]\<close>.\<close>

definition execute ::
  "execute_functions \<Rightarrow> node_operation_error + node_execution_data list list" where
  "execute this =
     (case loop this 0 [] of
        Inl e \<Rightarrow> Inl e
      | Inr returnData \<Rightarrow> Inr [returnData])"

text \<open>
  The entry that the loop pushes for item \<open>i\<close> when it does not abort: the entry built
  by the \<^verbatim>\<open>try\<close> block, or the entry built by the \<^verbatim>\<open>catch\<close> block.
\<close>

definition entryFor :: "execute_functions \<Rightarrow> nat \<Rightarrow> node_execution_data" where
  "entryFor this i =
     (case processItem this i of
        Inr entry \<Rightarrow> entry
      | Inl error \<Rightarrow>
          \<lparr> json = [(''error'', JString (message error))],
            binary = None,
            pairedItem = Some \<lparr> item = i \<rparr> \<rparr>)"

text \<open>The value of a string of decimal digits.\<close>

definition digit_value :: "char \<Rightarrow> nat" where
  "digit_value c = of_char c - 48"

definition decimal :: "string \<Rightarrow> nat" where
  "decimal ds = foldl (\<lambda>a c. 10 * a + digit_value c) 0 ds"

subsection \<open>A host for concrete runs\<close>

text \<open>
  A host in the manner of the mock of the test suite
  (\<^verbatim>\<open>tests/nodes/UpscaleImg/UpscaleImg.node.test.ts\<close>), with the test suite's data.  It
  answers every item alike, except that the HTTP requests of the items selected by
  \<open>s_httpRequestFail\<close> throw.  Its packager keeps the file name and MIME type it is given.
\<close>

definition FAKE_PNG :: buffer where
  "FAKE_PNG = [0x89, 0x50, 0x4e, 0x47, 0x0d, 0x0a, 0x1a, 0x0a]"

definition API_RESPONSE :: upscale_response where
  "API_RESPONSE =
     \<lparr> original = JObject
         [(''size'', JNumber 8), (''width'', JNumber 100), (''height'', JNumber 100),
          (''mimeType'', JString ''image/png''), (''fileExt'', JString ''png'')],
       result =
         \<lparr> r_size = 32, r_width = 200, r_height = 200,
           r_mimeType = ''image/webp'', r_fileExt = ''webp'',
           r_url = ''https://s3.example.com/upscaled.webp?signed=1'' \<rparr> \<rparr>"

definition DOWNLOADED_IMAGE :: buffer where
  "DOWNLOADED_IMAGE = map of_char ''fake-upscaled-image-data''"

record sample =
  s_items :: "node_execution_data list"
  s_binaryPropertyName :: string
  s_resizeMode :: string
  s_scale :: number
  s_customWidth :: number
  s_customHeight :: number
  s_objectFit :: string
  s_options :: options
  s_binaryFileName :: "string option"
  s_binaryMimeType :: "string option"
  s_httpRequestFail :: "nat \<Rightarrow> bool"
  s_continueOnFail :: bool

definition sampleHost :: "sample \<Rightarrow> execute_functions" where
  "sampleHost s =
     \<lparr> getInputData = s_items s,
       getNodeParameter_string = (\<lambda>name i.
         if name = ''binaryPropertyName'' then Inr (s_binaryPropertyName s)
         else if name = ''resizeMode'' then Inr (s_resizeMode s)
         else if name = ''objectFit'' then Inr (s_objectFit s)
         else Inl (Error ''Could not get parameter'')),
       getNodeParameter_number = (\<lambda>name i.
         if name = ''scale'' then Inr (s_scale s)
         else if name = ''customWidth'' then Inr (s_customWidth s)
         else if name = ''customHeight'' then Inr (s_customHeight s)
         else Inl (Error ''Could not get parameter'')),
       getNodeParameter_object = (\<lambda>name i.
         if name = ''options'' then Inr (s_options s)
         else Inl (Error ''Could not get parameter'')),
       assertBinaryData = (\<lambda>i name.
         Inr \<lparr> bd_data = ''iVBORw0KGgo='',
               bd_mimeType = s_binaryMimeType s,
               bd_fileName = s_binaryFileName s \<rparr>),
       getBinaryDataBuffer = (\<lambda>i name. Inr FAKE_PNG),
       getCredentials = (\<lambda>i name. Inr \<lparr> apiKey = ''test-api-key-123'' \<rparr>),
       httpRequest_json = (\<lambda>i request.
         if s_httpRequestFail s i then Inl (Error ''API request failed'')
         else Inr API_RESPONSE),
       httpRequest_buffer = (\<lambda>i request.
         if s_httpRequestFail s i then Inl (Error ''API request failed'')
         else Inr DOWNLOADED_IMAGE),
       prepareBinaryData = (\<lambda>i buf name mime.
         Inr \<lparr> bd_data = ''base64data'', bd_mimeType = Some mime, bd_fileName = Some name \<rparr>),
       continueOnFail = s_continueOnFail s,
       getNode = \<lparr> node_name = ''UpscaleIMG'' \<rparr> \<rparr>"

definition noOptions :: options where
  "noOptions = \<lparr> outputFormat = None, removeMetadata = None, outputBinaryPropertyName = None \<rparr>"

text \<open>
  The defaults of the test suite: one item whose attachment is \<^verbatim>\<open>photo.png\<close> of type
  \<^verbatim>\<open>image/png\<close>, scale mode with factor 2, no options, no failure.  The custom
  dimensions are the defaults of the node's schema.
\<close>

definition defaultSample :: sample where
  "defaultSample =
     \<lparr> s_items =
         [\<lparr> json = [],
            binary = Some [(''data'', \<lparr> bd_data = [], bd_mimeType = Some ''image/png'',
                                       bd_fileName = Some ''photo.png'' \<rparr>)],
            pairedItem = None \<rparr>],
       s_binaryPropertyName = ''data'',
       s_resizeMode = ''scale'',
       s_scale = safe 2,
       s_customWidth = safe 1920,
       s_customHeight = safe 1080,
       s_objectFit = ''cover'',
       s_options = noOptions,
       s_binaryFileName = Some ''photo.png'',
       s_binaryMimeType = Some ''image/png'',
       s_httpRequestFail = (\<lambda>i. False),
       s_continueOnFail = False \<rparr>"

text \<open>The two items of the test \<^verbatim>\<open>should process multiple items with correct pairedItem\<close>.\<close>

definition twoItems :: "node_execution_data list" where
  "twoItems =
     [\<lparr> json = [],
        binary = Some [(''data'', \<lparr> bd_data = [], bd_mimeType = Some ''image/png'',
                                   bd_fileName = Some ''a.png'' \<rparr>)],
        pairedItem = None \<rparr>,
      \<lparr> json = [],
        binary = Some [(''data'', \<lparr> bd_data = [], bd_mimeType = Some ''image/png'',
                                   bd_fileName = Some ''b.png'' \<rparr>)],
        pairedItem = None \<rparr>]"

text \<open>
  What \<open>sampleHost\<close> lets the node prepare: the upload request of the test suite
  (\<^verbatim>\<open>POST\<close> to the upscale endpoint with the bearer token of the mock's credentials)
  around a given form, and the image part for the attachment \<^verbatim>\<open>photo.png\<close>.
\<close>

definition samplePrepared :: "string \<Rightarrow> options \<Rightarrow> form_data \<Rightarrow> prepared" where
  "samplePrepared fileName opts form =
     \<lparr> p_fileName = fileName,
       p_options = opts,
       p_requestOptions =
         \<lparr> http_method = ''POST'',
           url = ''https://upscaleimg.app/api/v1/upscale'',
           headers = [(''Authorization'', ''Bearer test-api-key-123'')],
           body = Some form,
           encoding = None \<rparr> \<rparr>"

definition sampleImage :: "string \<times> form_value" where
  "sampleImage = (''image'', FileValue FAKE_PNG ''photo.png'' ''image/png'')"

text \<open>
  The entry the node builds for item \<open>i\<close> of a run against \<open>sampleHost\<close> with an
  attachment named \<^verbatim>\<open>photo.png\<close> and no options: the expectation of the test
  \<^verbatim>\<open>should upscale with scale mode (2x)\<close>.
\<close>

definition sampleEntry :: "nat \<Rightarrow> node_execution_data" where
  "sampleEntry i =
     \<lparr> json =
         [(''original'', original API_RESPONSE),
          (''result'', JObject
             [(''size'', JNumber 32), (''width'', JNumber 200), (''height'', JNumber 200),
              (''mimeType'', JString ''image/webp''), (''fileExt'', JString ''webp'')])],
       binary = Some [(''data'', \<lparr> bd_data = ''base64data'',
                                   bd_mimeType = Some ''image/webp'',
                                   bd_fileName = Some ''photo_upscaled.webp'' \<rparr>)],
       pairedItem = Some \<lparr> item = i \<rparr> \<rparr>"

section \<open>Properties\<close>

subsection \<open>Auxiliary facts\<close>

lemma andThen_Inr_iff:
  "andThen m f = Inr y \<longleftrightarrow> (\<exists>x. m = Inr x \<and> f x = Inr y)"
  by (cases m) (simp_all add: andThen_def)

lemma completeItem_pairedItem:
  "completeItem this i p = Inr entry \<Longrightarrow> pairedItem entry = Some \<lparr> item = i \<rparr>"
  by (auto simp: completeItem_def andThen_Inr_iff Let_def)

lemma processItem_pairedItem:
  "processItem this i = Inr entry \<Longrightarrow> pairedItem entry = Some \<lparr> item = i \<rparr>"
  by (auto simp: processItem_def andThen_Inr_iff dest: completeItem_pairedItem)

lemma entryFor_pairedItem: "pairedItem (entryFor this i) = Some \<lparr> item = i \<rparr>"
  by (cases "processItem this i") (simp_all add: entryFor_def processItem_pairedItem)

lemma loop_completes:
  assumes "continueOnFail this \<or>
           (\<forall>j. i \<le> j \<and> j < length (getInputData this) \<longrightarrow> (\<exists>entry. processItem this j = Inr entry))"
  shows "loop this i returnData =
         Inr (returnData @ map (entryFor this) [i ..< length (getInputData this)])"
  using assms
proof (induction this i returnData rule: loop.induct)
  case (1 this i returnData)
  show ?case
  proof (cases "i < length (getInputData this)")
    case False
    then show ?thesis by (simp add: loop.simps [of this i])
  next
    case True
    note inside = True
    have rest: "continueOnFail this \<or>
           (\<forall>j. i + 1 \<le> j \<and> j < length (getInputData this) \<longrightarrow> (\<exists>entry. processItem this j = Inr entry))"
      using "1.prems" by auto
    have range: "[i ..< length (getInputData this)] = i # [i + 1 ..< length (getInputData this)]"
      using inside by (simp add: upt_conv_Cons)
    show ?thesis
    proof (cases "processItem this i")
      case (Inr entry)
      then show ?thesis
        using "1.IH"(2) [OF inside Inr rest] inside range
        by (simp add: loop.simps [of this i] entryFor_def)
    next
      case (Inl error)
      with "1.prems" inside have cont: "continueOnFail this" by auto
      show ?thesis
        using "1.IH"(1) [OF inside Inl cont rest] inside range Inl cont
        by (simp add: loop.simps [of this i] entryFor_def)
    qed
  qed
qed

lemma loop_aborts:
  assumes "\<not> continueOnFail this" "i \<le> k" "k < length (getInputData this)"
    and "processItem this k = Inl e"
    and "\<forall>j. i \<le> j \<and> j < k \<longrightarrow> (\<exists>entry. processItem this j = Inr entry)"
  shows "loop this i returnData = Inl (NodeOperationError (getNode this) e k)"
  using assms
proof (induction this i returnData rule: loop.induct)
  case (1 this i returnData)
  have inside: "i < length (getInputData this)" using "1.prems" by simp
  show ?case
  proof (cases "i = k")
    case True
    then show ?thesis using "1.prems" inside by (simp add: loop.simps [of this k])
  next
    case False
    then have "i < k" using "1.prems" by simp
    then obtain entry where ok: "processItem this i = Inr entry" using "1.prems" by auto
    have rest: "\<forall>j. i + 1 \<le> j \<and> j < k \<longrightarrow> (\<exists>entry. processItem this j = Inr entry)"
      using "1.prems" by auto
    show ?thesis
      using "1.IH"(2) [OF inside ok "1.prems"(1) _ "1.prems"(3) "1.prems"(4) rest] \<open>i < k\<close> inside ok
      by (simp add: loop.simps [of this i])
  qed
qed


lemma execute_completes:
  assumes "continueOnFail this \<or>
           (\<forall>i < length (getInputData this). \<exists>entry. processItem this i = Inr entry)"
  shows "execute this = Inr [map (entryFor this) [0 ..< length (getInputData this)]]"
proof -
  have "loop this 0 [] = Inr ([] @ map (entryFor this) [0 ..< length (getInputData this)])"
    by (rule loop_completes) (use assms in auto)
  then show ?thesis by (simp add: execute_def)
qed

lemmas run_sample =
  processItem_def prepareRequest_def completeItem_def appendResize_def appendOptions_def
  andThen_def orElse_def form_append_def Let_def
  sampleHost_def defaultSample_def noOptions_def API_RESPONSE_def
  samplePrepared_def sampleImage_def

lemma replace_ext_photo: "replace_ext ''photo.png'' = ''photo''"
  by simp

lemma digits_small: "n < 10 \<Longrightarrow> digits n = [''0123456789'' ! n]"
  by (simp add: digits.simps [of n])

lemma digits_large: "10 \<le> n \<Longrightarrow> digits n = digits (n div 10) @ [''0123456789'' ! (n mod 10)]"
  by (simp add: digits.simps [of n])

lemma Rep_safe:
  "- MAX_SAFE_INTEGER \<le> n \<Longrightarrow> n \<le> MAX_SAFE_INTEGER \<Longrightarrow> Rep_safe_integer (Abs_safe_integer n) = n"
  by (simp add: Abs_safe_integer_inverse)

lemma String_number_safe:
  "- MAX_SAFE_INTEGER \<le> n \<Longrightarrow> n \<le> MAX_SAFE_INTEGER \<Longrightarrow> String_number (safe n) = numeral_of n"
  by (simp add: safe_def Rep_safe)

lemma String_number_2: "String_number (safe 2) = ''2''"
  by (simp add: String_number_safe MAX_SAFE_INTEGER_def numeral_of_def digits_small)

lemma String_number_4: "String_number (safe 4) = ''4''"
  by (simp add: String_number_safe MAX_SAFE_INTEGER_def numeral_of_def digits_small)

lemma String_number_3840: "String_number (safe 3840) = ''3840''"
  by (simp add: String_number_safe MAX_SAFE_INTEGER_def numeral_of_def digits_small digits_large)

lemma String_number_2160: "String_number (safe 2160) = ''2160''"
  by (simp add: String_number_safe MAX_SAFE_INTEGER_def numeral_of_def digits_small digits_large)

subsection \<open>The loop over the items\<close>

text \<open>
  Claim C1.  When continue-on-failure is enabled, or when no item fails, \<open>execute\<close> over
  \<open>N\<close> input items returns one list of exactly \<open>N\<close> entries, in input order: the entry
  at position \<open>i\<close> is the entry of item \<open>i\<close>, and its \<open>pairedItem.item\<close> is \<open>i\<close>.
\<close>

theorem execute_one_entry_per_item:
  assumes "continueOnFail this \<or>
           (\<forall>i < length (getInputData this). \<exists>entry. processItem this i = Inr entry)"
  shows "\<exists>returnData. execute this = Inr [returnData]
           \<and> length returnData = length (getInputData this)
           \<and> (\<forall>i < length (getInputData this).
                 returnData ! i = entryFor this i
               \<and> pairedItem (returnData ! i) = Some \<lparr> item = i \<rparr>)"
  using execute_completes [OF assms] by (simp add: entryFor_pairedItem)

theorem execute_one_entry_per_item_witness:
  "length (getInputData (sampleHost (defaultSample \<lparr> s_items := twoItems \<rparr>))) = 2
   \<and> processItem (sampleHost (defaultSample \<lparr> s_items := twoItems \<rparr>)) 0 = Inr (sampleEntry 0)
   \<and> processItem (sampleHost (defaultSample \<lparr> s_items := twoItems \<rparr>)) 1 = Inr (sampleEntry 1)
   \<and> execute (sampleHost (defaultSample \<lparr> s_items := twoItems \<rparr>))
       = Inr [[sampleEntry 0, sampleEntry 1]]
   \<and> pairedItem (sampleEntry 0) = Some \<lparr> item = 0 \<rparr>
   \<and> pairedItem (sampleEntry 1) = Some \<lparr> item = 1 \<rparr>"
proof -
  let ?h = "sampleHost (defaultSample \<lparr> s_items := twoItems \<rparr>)"
  have len: "length (getInputData ?h) = 2"
    by (simp add: sampleHost_def twoItems_def)
  have item: "processItem ?h i = Inr (sampleEntry i)" for i
    by (simp add: run_sample sampleEntry_def String_number_2 replace_ext_photo)
  then have ok: "\<forall>i < length (getInputData ?h). \<exists>entry. processItem ?h i = Inr entry"
    by simp
  from execute_one_entry_per_item [of ?h] ok len obtain returnData where
    run: "execute ?h = Inr [returnData]" "length returnData = 2" and
    each: "\<And>i. i < 2 \<Longrightarrow> returnData ! i = entryFor ?h i"
    by auto
  have "returnData ! 0 = sampleEntry 0"
    by (simp add: each entryFor_def item)
  moreover have "returnData ! 1 = sampleEntry 1"
    by (simp add: each entryFor_def item)
  ultimately have "returnData = [sampleEntry 0, sampleEntry 1]"
    using run(2) by (intro nth_equalityI) (auto simp: less_Suc_eq numeral_2_eq_2)
  with run len item show ?thesis
    by (simp add: sampleEntry_def)
qed

lemma first_failure:
  assumes "processItem this i = Inl e"
  obtains k e' where "k \<le> i" "processItem this k = Inl e'"
    "\<forall>j < k. \<exists>entry. processItem this j = Inr entry"
proof -
  define k where "k = (LEAST k. \<exists>e'. processItem this k = Inl e')"
  have ex: "\<exists>e'. processItem this i = Inl e'" using assms by blast
  then have "\<exists>e'. processItem this k = Inl e'" unfolding k_def by (rule LeastI)
  then obtain e' where fails: "processItem this k = Inl e'" ..
  have le: "k \<le> i" unfolding k_def using ex by (rule Least_le)
  have "\<exists>entry. processItem this j = Inr entry" if "j < k" for j
  proof (cases "processItem this j")
    case (Inl e'')
    then have "k \<le> j" unfolding k_def by (intro Least_le) blast
    with that show ?thesis by simp
  next
    case (Inr entry)
    then show ?thesis by blast
  qed
  with le fails that show ?thesis by blast
qed

lemma execute_aborts:
  assumes "\<not> continueOnFail this" "k < length (getInputData this)"
    and "processItem this k = Inl e"
    and "\<forall>j < k. \<exists>entry. processItem this j = Inr entry"
  shows "execute this = Inl (NodeOperationError (getNode this) e k)"
proof -
  have "loop this 0 [] = Inl (NodeOperationError (getNode this) e k)"
    by (rule loop_aborts) (use assms in auto)
  then show ?thesis by (simp add: execute_def)
qed

text \<open>
  Claim C2.  Let the processing of item \<open>i\<close> throw the error \<open>e\<close>.
  \<^item> With continue-on-failure enabled the run completes; the entry at position \<open>i\<close> is
    \<^verbatim>\<open>{json: {error: e.message}, pairedItem: {item: i}}\<close>, and every position holds the
    entry of its own item, so the loop went on with item \<open>i + 1\<close>.
  \<^item> With continue-on-failure disabled the run returns no output: it ends with the
    \<^verbatim>\<open>NodeOperationError\<close> of the first item that throws, carrying that item's index
    and error.  The loop stops there, so an item whose processing is reached and throws
    is that first item: when all items before \<open>i\<close> succeed, the error carries \<open>i\<close>
    and \<open>e\<close>.
\<close>

theorem execute_item_error:
  assumes "i < length (getInputData this)" and "processItem this i = Inl e"
  shows "(continueOnFail this \<longrightarrow>
            (\<exists>returnData. execute this = Inr [returnData]
               \<and> length returnData = length (getInputData this)
               \<and> returnData ! i = \<lparr> json = [(''error'', JString (message e))],
                                      binary = None,
                                      pairedItem = Some \<lparr> item = i \<rparr> \<rparr>
               \<and> (\<forall>j < length (getInputData this). returnData ! j = entryFor this j)))
       \<and> (\<not> continueOnFail this \<longrightarrow>
            (\<exists>k e'. k \<le> i \<and> processItem this k = Inl e'
               \<and> (\<forall>j < k. \<exists>entry. processItem this j = Inr entry)
               \<and> execute this = Inl (NodeOperationError (getNode this) e' k)))
       \<and> (\<not> continueOnFail this \<and> (\<forall>j < i. \<exists>entry. processItem this j = Inr entry) \<longrightarrow>
            execute this = Inl (NodeOperationError (getNode this) e i))"
proof (intro conjI impI)
  assume cont: "continueOnFail this"
  then have "execute this = Inr [map (entryFor this) [0 ..< length (getInputData this)]]"
    by (intro execute_completes) simp
  moreover have "entryFor this i = \<lparr> json = [(''error'', JString (message e))],
      binary = None, pairedItem = Some \<lparr> item = i \<rparr> \<rparr>"
    using assms(2) by (simp add: entryFor_def)
  ultimately show "\<exists>returnData. execute this = Inr [returnData]
               \<and> length returnData = length (getInputData this)
               \<and> returnData ! i = \<lparr> json = [(''error'', JString (message e))],
                                      binary = None,
                                      pairedItem = Some \<lparr> item = i \<rparr> \<rparr>
               \<and> (\<forall>j < length (getInputData this). returnData ! j = entryFor this j)"
    using assms(1) by simp
next
  assume stop: "\<not> continueOnFail this"
  from assms(2) obtain k e' where k: "k \<le> i" "processItem this k = Inl e'"
    "\<forall>j < k. \<exists>entry. processItem this j = Inr entry"
    by (rule first_failure)
  moreover have "execute this = Inl (NodeOperationError (getNode this) e' k)"
    using stop k assms(1) by (intro execute_aborts) auto
  ultimately show "\<exists>k e'. k \<le> i \<and> processItem this k = Inl e'
               \<and> (\<forall>j < k. \<exists>entry. processItem this j = Inr entry)
               \<and> execute this = Inl (NodeOperationError (getNode this) e' k)"
    by blast
next
  assume "\<not> continueOnFail this \<and> (\<forall>j < i. \<exists>entry. processItem this j = Inr entry)"
  then show "execute this = Inl (NodeOperationError (getNode this) e i)"
    using assms by (intro execute_aborts) auto
qed

theorem execute_item_error_witness:
  "processItem (sampleHost (defaultSample
       \<lparr> s_items := twoItems, s_httpRequestFail := (\<lambda>i. i = 0), s_continueOnFail := True \<rparr>)) 0
     = Inl (Error ''API request failed'')
   \<and> execute (sampleHost (defaultSample
       \<lparr> s_items := twoItems, s_httpRequestFail := (\<lambda>i. i = 0), s_continueOnFail := True \<rparr>))
     = Inr [[\<lparr> json = [(''error'', JString ''API request failed'')], binary = None,
               pairedItem = Some \<lparr> item = 0 \<rparr> \<rparr>,
             sampleEntry 1]]
   \<and> processItem (sampleHost (defaultSample
       \<lparr> s_items := twoItems, s_httpRequestFail := (\<lambda>i. i = 1) \<rparr>)) 0
     = Inr (sampleEntry 0)
   \<and> processItem (sampleHost (defaultSample
       \<lparr> s_items := twoItems, s_httpRequestFail := (\<lambda>i. i = 1) \<rparr>)) 1
     = Inl (Error ''API request failed'')
   \<and> execute (sampleHost (defaultSample
       \<lparr> s_items := twoItems, s_httpRequestFail := (\<lambda>i. i = 1) \<rparr>))
     = Inl (NodeOperationError \<lparr> node_name = ''UpscaleIMG'' \<rparr> (Error ''API request failed'') 1)"
proof -
  let ?a = "sampleHost (defaultSample
       \<lparr> s_items := twoItems, s_httpRequestFail := (\<lambda>i. i = 0), s_continueOnFail := True \<rparr>)"
  let ?b = "sampleHost (defaultSample
       \<lparr> s_items := twoItems, s_httpRequestFail := (\<lambda>i. i = 1) \<rparr>)"
  have lens: "length (getInputData ?a) = 2" "length (getInputData ?b) = 2"
    by (simp_all add: sampleHost_def twoItems_def)
  have a0: "processItem ?a 0 = Inl (Error ''API request failed'')"
    by (simp add: run_sample String_number_2)
  have a1: "processItem ?a 1 = Inr (sampleEntry 1)"
    by (simp add: run_sample sampleEntry_def String_number_2 replace_ext_photo)
  have b0: "processItem ?b 0 = Inr (sampleEntry 0)"
    by (simp add: run_sample sampleEntry_def String_number_2 replace_ext_photo)
  have b1: "processItem ?b 1 = Inl (Error ''API request failed'')"
    by (simp add: run_sample String_number_2)
  have conts: "continueOnFail ?a" "\<not> continueOnFail ?b" "getNode ?b = \<lparr> node_name = ''UpscaleIMG'' \<rparr>"
    by (simp_all add: sampleHost_def defaultSample_def)
  from execute_item_error [of 0 ?a, OF _ a0] lens conts obtain returnData where
    run: "execute ?a = Inr [returnData]" "length returnData = 2" and
    each: "\<And>j. j < 2 \<Longrightarrow> returnData ! j = entryFor ?a j"
    by auto
  have "returnData ! 0 = \<lparr> json = [(''error'', JString ''API request failed'')], binary = None,
               pairedItem = Some \<lparr> item = 0 \<rparr> \<rparr>"
    by (simp add: each entryFor_def a0)
  moreover have "returnData ! 1 = sampleEntry 1"
    using a1 by (simp add: each entryFor_def)
  ultimately have "returnData = [\<lparr> json = [(''error'', JString ''API request failed'')],
        binary = None, pairedItem = Some \<lparr> item = 0 \<rparr> \<rparr>, sampleEntry 1]"
    using run(2) by (intro nth_equalityI) (auto simp: less_Suc_eq numeral_2_eq_2)
  with run have A: "execute ?a = Inr [[\<lparr> json = [(''error'', JString ''API request failed'')],
        binary = None, pairedItem = Some \<lparr> item = 0 \<rparr> \<rparr>, sampleEntry 1]]" by simp
  have "\<forall>j < 1. \<exists>entry. processItem ?b j = Inr entry" using b0 by simp
  with execute_item_error [of 1 ?b, OF _ b1] lens conts
  have B: "execute ?b = Inl (NodeOperationError \<lparr> node_name = ''UpscaleIMG'' \<rparr>
             (Error ''API request failed'') 1)"
    by simp
  from a0 A b0 b1 B show ?thesis by blast
qed

subsection \<open>The upload form and the output entry\<close>

lemma prepareRequest_Inr:
  assumes "prepareRequest this i = Inr p"
  obtains binaryPropertyName resizeMode opts binaryData binaryBuffer creds form where
    "getNodeParameter_string this ''binaryPropertyName'' i = Inr binaryPropertyName"
    "getNodeParameter_string this ''resizeMode'' i = Inr resizeMode"
    "getNodeParameter_object this ''options'' i = Inr opts"
    "assertBinaryData this i binaryPropertyName = Inr binaryData"
    "getBinaryDataBuffer this i binaryPropertyName = Inr binaryBuffer"
    "getCredentials this i ''upscaleImgApi'' = Inr creds"
    "appendResize this i resizeMode
       [(''image'', FileValue binaryBuffer (orElse (bd_fileName binaryData) ''image.png'')
                      (orElse (bd_mimeType binaryData) ''image/png''))] = Inr form"
    "p_fileName p = orElse (bd_fileName binaryData) ''image.png''"
    "p_options p = opts"
    "p_requestOptions p =
       \<lparr> http_method = ''POST'',
         url = ''https://upscaleimg.app/api/v1/upscale'',
         headers = [(''Authorization'', ''Bearer '' @ apiKey creds)],
         body = Some (appendOptions opts form),
         encoding = None \<rparr>"
  using assms
  by (auto simp: prepareRequest_def andThen_Inr_iff Let_def form_append_def)

lemma appendResize_scale:
  assumes "appendResize this i ''scale'' form = Inr form'"
  obtains scale where "getNodeParameter_number this ''scale'' i = Inr scale"
    "form' = form @ [(''scale'', TextValue (String_number scale))]"
  using assms by (auto simp: appendResize_def andThen_Inr_iff form_append_def)

lemma appendResize_custom:
  assumes "appendResize this i resizeMode form = Inr form'" "resizeMode \<noteq> ''scale''"
  obtains customWidth customHeight objectFit where
    "getNodeParameter_number this ''customWidth'' i = Inr customWidth"
    "getNodeParameter_number this ''customHeight'' i = Inr customHeight"
    "getNodeParameter_string this ''objectFit'' i = Inr objectFit"
    "form' = form @ [(''customWidth'', TextValue (String_number customWidth)),
                     (''customHeight'', TextValue (String_number customHeight)),
                     (''objectFit'', TextValue objectFit)]"
  using assms by (auto simp: appendResize_def andThen_Inr_iff form_append_def)

lemma getAll_append [simp]: "getAll (xs @ ys) field = getAll xs field @ getAll ys field"
  by (simp add: getAll_def)

lemma getAll_Nil [simp]: "getAll [] field = []"
  by (simp add: getAll_def)

lemma getAll_Cons [simp]:
  "getAll ((k, v) # xs) field = (if k = field then v # getAll xs field else getAll xs field)"
  by (simp add: getAll_def)

lemma getAll_appendOptions_other:
  assumes "field \<noteq> ''outputFormat''" "field \<noteq> ''removeMetadata''"
  shows "getAll (appendOptions opts form) field = getAll form field"
  using assms
  by (auto simp: appendOptions_def Let_def form_append_def split: option.splits)

lemma getAll_appendOptions_removeMetadata:
  "getAll (appendOptions opts form) ''removeMetadata'' =
     getAll form ''removeMetadata'' @
       (case removeMetadata opts of
          None \<Rightarrow> []
        | Some b \<Rightarrow> [TextValue (if b then ''1'' else ''0'')])"
  by (auto simp: appendOptions_def Let_def form_append_def split: option.splits)

lemma appendResize_no_removeMetadata:
  assumes "appendResize this i resizeMode form = Inr form'"
  shows "getAll form' ''removeMetadata'' = getAll form ''removeMetadata''"
proof (cases "resizeMode = ''scale''")
  case True
  with assms show ?thesis by (auto elim!: appendResize_scale)
next
  case False
  with assms show ?thesis by (auto elim!: appendResize_custom)
qed

text \<open>
  Claim C3.  Whenever the upload request of an item is built, its form has a
  \<^verbatim>\<open>removeMetadata\<close> field exactly when \<^verbatim>\<open>options.removeMetadata\<close> is not \<^verbatim>\<open>undefined\<close>:
  the one value \<^verbatim>\<open>"1"\<close> when it is \<^verbatim>\<open>true\<close>, the one value \<^verbatim>\<open>"0"\<close> when it is \<^verbatim>\<open>false\<close>, and
  no such field when it is unset.
\<close>

theorem removeMetadata_field:
  assumes "prepareRequest this i = Inr p"
  shows "\<exists>opts form.
           getNodeParameter_object this ''options'' i = Inr opts
         \<and> body (p_requestOptions p) = Some form
         \<and> (getAll form ''removeMetadata'' \<noteq> [] \<longleftrightarrow> removeMetadata opts \<noteq> None)
         \<and> (removeMetadata opts = Some True \<longrightarrow>
              getAll form ''removeMetadata'' = [TextValue ''1''])
         \<and> (removeMetadata opts = Some False \<longrightarrow>
              getAll form ''removeMetadata'' = [TextValue ''0''])
         \<and> (removeMetadata opts = None \<longrightarrow> getAll form ''removeMetadata'' = [])"
proof -
  from assms obtain resizeMode opts and binaryData :: binary_data
      and binaryBuffer and creds :: credentials and form where
    opts: "getNodeParameter_object this ''options'' i = Inr opts" and
    resize: "appendResize this i resizeMode
       [(''image'', FileValue binaryBuffer (orElse (bd_fileName binaryData) ''image.png'')
                      (orElse (bd_mimeType binaryData) ''image/png''))] = Inr form" and
    p: "p_requestOptions p =
       \<lparr> http_method = ''POST'',
         url = ''https://upscaleimg.app/api/v1/upscale'',
         headers = [(''Authorization'', ''Bearer '' @ apiKey creds)],
         body = Some (appendOptions opts form),
         encoding = None \<rparr>"
    by (elim prepareRequest_Inr) blast
  have "getAll form ''removeMetadata'' = []"
    using appendResize_no_removeMetadata [OF resize] by simp
  then have "getAll (appendOptions opts form) ''removeMetadata'' =
      (case removeMetadata opts of
          None \<Rightarrow> []
        | Some b \<Rightarrow> [TextValue (if b then ''1'' else ''0'')])"
    by (simp add: getAll_appendOptions_removeMetadata)
  with opts p show ?thesis
    by (auto split: option.splits)
qed

lemma prepared_form:
  assumes "prepareRequest this i = Inr p"
  obtains resizeMode opts binaryPropertyName binaryData binaryBuffer form where
    "getNodeParameter_string this ''resizeMode'' i = Inr resizeMode"
    "getNodeParameter_object this ''options'' i = Inr opts"
    "getNodeParameter_string this ''binaryPropertyName'' i = Inr binaryPropertyName"
    "assertBinaryData this i binaryPropertyName = Inr binaryData"
    "getBinaryDataBuffer this i binaryPropertyName = Inr binaryBuffer"
    "appendResize this i resizeMode
       [(''image'', FileValue binaryBuffer (orElse (bd_fileName binaryData) ''image.png'')
                      (orElse (bd_mimeType binaryData) ''image/png''))] = Inr form"
    "body (p_requestOptions p) = Some (appendOptions opts form)"
proof -
  from assms obtain binaryPropertyName resizeMode opts and binaryData :: binary_data
      and binaryBuffer and creds :: credentials and form where
    "getNodeParameter_string this ''binaryPropertyName'' i = Inr binaryPropertyName"
    "getNodeParameter_string this ''resizeMode'' i = Inr resizeMode"
    "getNodeParameter_object this ''options'' i = Inr opts"
    "assertBinaryData this i binaryPropertyName = Inr binaryData"
    "getBinaryDataBuffer this i binaryPropertyName = Inr binaryBuffer"
    "appendResize this i resizeMode
       [(''image'', FileValue binaryBuffer (orElse (bd_fileName binaryData) ''image.png'')
                      (orElse (bd_mimeType binaryData) ''image/png''))] = Inr form"
    "p_requestOptions p =
       \<lparr> http_method = ''POST'',
         url = ''https://upscaleimg.app/api/v1/upscale'',
         headers = [(''Authorization'', ''Bearer '' @ apiKey creds)],
         body = Some (appendOptions opts form),
         encoding = None \<rparr>"
    by (elim prepareRequest_Inr) blast
  then show ?thesis by (intro that) simp_all
qed

text \<open>
  Claim C4.  When \<^verbatim>\<open>resizeMode\<close> is \<^verbatim>\<open>'scale'\<close> and the upload request is built, the node
  has read the parameter \<^verbatim>\<open>scale\<close> and the form has exactly one \<^verbatim>\<open>scale\<close> field, whose
  value is \<^verbatim>\<open>String(scale)\<close>: \<^verbatim>\<open>"2"\<close> for the factor 2 and \<^verbatim>\<open>"4"\<close> for the factor 4.  The
  form has no \<^verbatim>\<open>customWidth\<close>, \<^verbatim>\<open>customHeight\<close> or \<^verbatim>\<open>objectFit\<close> field.
\<close>

theorem scale_mode_form:
  assumes "getNodeParameter_string this ''resizeMode'' i = Inr ''scale''"
    and "prepareRequest this i = Inr p"
  shows "\<exists>scale form.
           getNodeParameter_number this ''scale'' i = Inr scale
         \<and> body (p_requestOptions p) = Some form
         \<and> getAll form ''scale'' = [TextValue (String_number scale)]
         \<and> (scale = safe 2 \<longrightarrow> getAll form ''scale'' = [TextValue ''2''])
         \<and> (scale = safe 4 \<longrightarrow> getAll form ''scale'' = [TextValue ''4''])
         \<and> getAll form ''customWidth'' = []
         \<and> getAll form ''customHeight'' = []
         \<and> getAll form ''objectFit'' = []"
proof -
  from assms(2) obtain resizeMode opts and binaryData :: binary_data and binaryBuffer form where
    mode: "getNodeParameter_string this ''resizeMode'' i = Inr resizeMode" and
    resize: "appendResize this i resizeMode
       [(''image'', FileValue binaryBuffer (orElse (bd_fileName binaryData) ''image.png'')
                      (orElse (bd_mimeType binaryData) ''image/png''))] = Inr form" and
    body: "body (p_requestOptions p) = Some (appendOptions opts form)"
    by (elim prepared_form) blast
  from mode assms(1) have "resizeMode = ''scale''" by simp
  with resize obtain scale where
    scale: "getNodeParameter_number this ''scale'' i = Inr scale" and
    form: "form = [(''image'', FileValue binaryBuffer (orElse (bd_fileName binaryData) ''image.png'')
                      (orElse (bd_mimeType binaryData) ''image/png''))]
                  @ [(''scale'', TextValue (String_number scale))]"
    by (auto elim: appendResize_scale)
  have "getAll (appendOptions opts form) ''scale'' = [TextValue (String_number scale)]"
    and "getAll (appendOptions opts form) ''customWidth'' = []"
    and "getAll (appendOptions opts form) ''customHeight'' = []"
    and "getAll (appendOptions opts form) ''objectFit'' = []"
    by (simp_all add: getAll_appendOptions_other form)
  with scale body show ?thesis
    by (auto simp: String_number_2 String_number_4)
qed

lemma custom_branch_form:
  assumes "getNodeParameter_string this ''resizeMode'' i = Inr resizeMode"
    and "resizeMode \<noteq> ''scale''"
    and "prepareRequest this i = Inr p"
  shows "\<exists>customWidth customHeight objectFit form.
           getNodeParameter_number this ''customWidth'' i = Inr customWidth
         \<and> getNodeParameter_number this ''customHeight'' i = Inr customHeight
         \<and> getNodeParameter_string this ''objectFit'' i = Inr objectFit
         \<and> body (p_requestOptions p) = Some form
         \<and> getAll form ''customWidth'' = [TextValue (String_number customWidth)]
         \<and> getAll form ''customHeight'' = [TextValue (String_number customHeight)]
         \<and> getAll form ''objectFit'' = [TextValue objectFit]
         \<and> getAll form ''scale'' = []"
proof -
  from assms(3) obtain resizeMode' opts and binaryData :: binary_data and binaryBuffer form where
    mode: "getNodeParameter_string this ''resizeMode'' i = Inr resizeMode'" and
    resize: "appendResize this i resizeMode'
       [(''image'', FileValue binaryBuffer (orElse (bd_fileName binaryData) ''image.png'')
                      (orElse (bd_mimeType binaryData) ''image/png''))] = Inr form" and
    body: "body (p_requestOptions p) = Some (appendOptions opts form)"
    by (elim prepared_form) blast
  from mode assms(1,2) have "resizeMode' \<noteq> ''scale''" by simp
  with resize obtain customWidth customHeight objectFit where
    reads: "getNodeParameter_number this ''customWidth'' i = Inr customWidth"
      "getNodeParameter_number this ''customHeight'' i = Inr customHeight"
      "getNodeParameter_string this ''objectFit'' i = Inr objectFit" and
    form: "form = [(''image'', FileValue binaryBuffer (orElse (bd_fileName binaryData) ''image.png'')
                      (orElse (bd_mimeType binaryData) ''image/png''))]
                  @ [(''customWidth'', TextValue (String_number customWidth)),
                     (''customHeight'', TextValue (String_number customHeight)),
                     (''objectFit'', TextValue objectFit)]"
    by (auto elim: appendResize_custom)
  have "getAll (appendOptions opts form) ''customWidth'' = [TextValue (String_number customWidth)]"
    and "getAll (appendOptions opts form) ''customHeight'' = [TextValue (String_number customHeight)]"
    and "getAll (appendOptions opts form) ''objectFit'' = [TextValue objectFit]"
    and "getAll (appendOptions opts form) ''scale'' = []"
    by (simp_all add: getAll_appendOptions_other form)
  with reads body show ?thesis by blast
qed

lemma digit_value_nth: "d < 10 \<Longrightarrow> digit_value (''0123456789'' ! d) = d"
proof -
  assume "d < 10"
  then have "d \<in> {0, 1, 2, 3, 4, 5, 6, 7, 8, 9}" by auto
  then show ?thesis by (auto simp: digit_value_def)
qed

lemma decimal_snoc: "decimal (ds @ [c]) = 10 * decimal ds + digit_value c"
  by (simp add: decimal_def)

lemma decimal_digits: "decimal (digits n) = n"
proof (induction n rule: digits.induct)
  case (1 n)
  show ?case
  proof (cases "n < 10")
    case True
    then show ?thesis
      by (simp add: digits.simps [of n] decimal_def digit_value_nth)
  next
    case False
    with 1 show ?thesis
      by (simp add: digits.simps [of n] decimal_snoc digit_value_nth)
  qed
qed

lemma digits_chars: "set (digits n) \<subseteq> set ''0123456789''"
proof (induction n rule: digits.induct)
  case (1 n)
  have nth: "''0123456789'' ! d \<in> set ''0123456789''" if "d < 10" for d
    using that by (intro nth_mem) simp
  show ?case
  proof (cases "n < 10")
    case True
    then show ?thesis using nth [of n] by (simp add: digits.simps [of n])
  next
    case False
    with 1 nth [of "n mod 10"] show ?thesis
      by (simp add: digits.simps [of n])
  qed
qed

lemma String_number_decimal:
  "0 \<le> Rep_safe_integer n \<Longrightarrow>
     decimal (String_number (SafeInteger n)) = nat (Rep_safe_integer n)
   \<and> set (String_number (SafeInteger n)) \<subseteq> set ''0123456789''"
  using digits_chars [of "nat (Rep_safe_integer n)"]
  by (simp add: numeral_of_def decimal_digits)

lemma String_number_negative:
  "Rep_safe_integer n < 0 \<Longrightarrow>
     String_number (SafeInteger n) = CHR ''-'' # digits (nat (- Rep_safe_integer n))"
  by (simp add: numeral_of_def)

text \<open>
  Claim C5, as the code has it.  When \<^verbatim>\<open>resizeMode\<close> is \<^verbatim>\<open>'customDimensions'\<close> and the
  upload request is built, the node has read \<^verbatim>\<open>customWidth\<close>, \<^verbatim>\<open>customHeight\<close> and
  \<^verbatim>\<open>objectFit\<close>; the form has exactly one field of each name, with the values
  \<^verbatim>\<open>String(customWidth)\<close>, \<^verbatim>\<open>String(customHeight)\<close> and the string \<^verbatim>\<open>objectFit\<close> as it is,
  and it has no \<^verbatim>\<open>scale\<close> field.  When a dimension is a safe integer that is not
  negative, its field is a string of decimal digits whose decimal value is the
  dimension.  (For other numbers \<^verbatim>\<open>String\<close> need not yield decimal digits: \<^verbatim>\<open>String(1e21)\<close> is
  \<^verbatim>\<open>1e+21\<close>.)
\<close>

theorem custom_dimensions_form:
  assumes "getNodeParameter_string this ''resizeMode'' i = Inr ''customDimensions''"
    and "prepareRequest this i = Inr p"
  shows "\<exists>customWidth customHeight objectFit form.
           getNodeParameter_number this ''customWidth'' i = Inr customWidth
         \<and> getNodeParameter_number this ''customHeight'' i = Inr customHeight
         \<and> getNodeParameter_string this ''objectFit'' i = Inr objectFit
         \<and> body (p_requestOptions p) = Some form
         \<and> getAll form ''customWidth'' = [TextValue (String_number customWidth)]
         \<and> getAll form ''customHeight'' = [TextValue (String_number customHeight)]
         \<and> getAll form ''objectFit'' = [TextValue objectFit]
         \<and> getAll form ''scale'' = []
         \<and> (\<forall>n. customWidth = SafeInteger n \<and> 0 \<le> Rep_safe_integer n \<longrightarrow>
               decimal (String_number customWidth) = nat (Rep_safe_integer n)
             \<and> set (String_number customWidth) \<subseteq> set ''0123456789'')
         \<and> (\<forall>n. customHeight = SafeInteger n \<and> 0 \<le> Rep_safe_integer n \<longrightarrow>
               decimal (String_number customHeight) = nat (Rep_safe_integer n)
             \<and> set (String_number customHeight) \<subseteq> set ''0123456789'')"
proof -
  have "''customDimensions'' \<noteq> ''scale''" by simp
  from custom_branch_form [OF assms(1) this assms(2)]
  obtain customWidth customHeight objectFit form where
    fields: "getNodeParameter_number this ''customWidth'' i = Inr customWidth
         \<and> getNodeParameter_number this ''customHeight'' i = Inr customHeight
         \<and> getNodeParameter_string this ''objectFit'' i = Inr objectFit
         \<and> body (p_requestOptions p) = Some form
         \<and> getAll form ''customWidth'' = [TextValue (String_number customWidth)]
         \<and> getAll form ''customHeight'' = [TextValue (String_number customHeight)]
         \<and> getAll form ''objectFit'' = [TextValue objectFit]
         \<and> getAll form ''scale'' = []"
    by (elim exE) (rule that)
  have width: "\<forall>n. customWidth = SafeInteger n \<and> 0 \<le> Rep_safe_integer n \<longrightarrow>
               decimal (String_number customWidth) = nat (Rep_safe_integer n)
             \<and> set (String_number customWidth) \<subseteq> set ''0123456789''"
    using String_number_decimal by blast
  have height: "\<forall>n. customHeight = SafeInteger n \<and> 0 \<le> Rep_safe_integer n \<longrightarrow>
               decimal (String_number customHeight) = nat (Rep_safe_integer n)
             \<and> set (String_number customHeight) \<subseteq> set ''0123456789''"
    using String_number_decimal by blast
  from fields width height show ?thesis by blast
qed

lemma andThen_Inr: "andThen (Inr x) f = f x"
  by (simp add: andThen_def)

text \<open>
  Claim C10.  When \<^verbatim>\<open>resizeMode\<close> is any string other than \<^verbatim>\<open>'scale'\<close>, preparing the
  request has the same outcome, error or request, as with the mode
  \<^verbatim>\<open>'customDimensions'\<close>: the mode itself is never a reason to fail.  When the request
  is built, the node has read \<^verbatim>\<open>customWidth\<close>, \<^verbatim>\<open>customHeight\<close> and \<^verbatim>\<open>objectFit\<close> and has
  appended these three fields, and no \<^verbatim>\<open>scale\<close> field.
\<close>

theorem other_mode_takes_custom_branch:
  assumes "getNodeParameter_string this ''resizeMode'' i = Inr resizeMode"
    and "resizeMode \<noteq> ''scale''"
  shows "prepareRequest this i =
           prepareRequest
             (this \<lparr> getNodeParameter_string := \<lambda>name j.
                       if name = ''resizeMode'' then Inr ''customDimensions''
                       else getNodeParameter_string this name j \<rparr>) i
       \<and> (\<forall>p. prepareRequest this i = Inr p \<longrightarrow>
            (\<exists>customWidth customHeight objectFit form.
               getNodeParameter_number this ''customWidth'' i = Inr customWidth
             \<and> getNodeParameter_number this ''customHeight'' i = Inr customHeight
             \<and> getNodeParameter_string this ''objectFit'' i = Inr objectFit
             \<and> body (p_requestOptions p) = Some form
             \<and> getAll form ''customWidth'' = [TextValue (String_number customWidth)]
             \<and> getAll form ''customHeight'' = [TextValue (String_number customHeight)]
             \<and> getAll form ''objectFit'' = [TextValue objectFit]
             \<and> getAll form ''scale'' = []))"
proof
  show "prepareRequest this i =
           prepareRequest
             (this \<lparr> getNodeParameter_string := \<lambda>name j.
                       if name = ''resizeMode'' then Inr ''customDimensions''
                       else getNodeParameter_string this name j \<rparr>) i"
    using assms by (simp add: prepareRequest_def appendResize_def Let_def andThen_Inr)
next
  show "\<forall>p. prepareRequest this i = Inr p \<longrightarrow>
            (\<exists>customWidth customHeight objectFit form.
               getNodeParameter_number this ''customWidth'' i = Inr customWidth
             \<and> getNodeParameter_number this ''customHeight'' i = Inr customHeight
             \<and> getNodeParameter_string this ''objectFit'' i = Inr objectFit
             \<and> body (p_requestOptions p) = Some form
             \<and> getAll form ''customWidth'' = [TextValue (String_number customWidth)]
             \<and> getAll form ''customHeight'' = [TextValue (String_number customHeight)]
             \<and> getAll form ''objectFit'' = [TextValue objectFit]
             \<and> getAll form ''scale'' = [])"
    using custom_branch_form [OF assms] by blast
qed

text \<open>
  Claim C8, as the code has it.  The form has exactly one \<^verbatim>\<open>image\<close> part: the bytes of
  the attachment, tagged with the file name \<^verbatim>\<open>image.png\<close> when the attachment's file
  name is omitted or is the empty string, and with the attachment's file name when that
  is a non-empty string; likewise for the MIME type with the default \<^verbatim>\<open>image/png\<close>.
  (The source uses \<^verbatim>\<open>||\<close>, so an empty string that the attachment provides is replaced
  by the default, too.)
\<close>

theorem image_part_tags:
  assumes "getNodeParameter_string this ''binaryPropertyName'' i = Inr binaryPropertyName"
    and "assertBinaryData this i binaryPropertyName = Inr binaryData"
    and "prepareRequest this i = Inr p"
  shows "\<exists>binaryBuffer form fileName mimeType.
           getBinaryDataBuffer this i binaryPropertyName = Inr binaryBuffer
         \<and> body (p_requestOptions p) = Some form
         \<and> getAll form ''image'' = [FileValue binaryBuffer fileName mimeType]
         \<and> fileName = (case bd_fileName binaryData of
                          None \<Rightarrow> ''image.png''
                        | Some f \<Rightarrow> if f = [] then ''image.png'' else f)
         \<and> mimeType = (case bd_mimeType binaryData of
                          None \<Rightarrow> ''image/png''
                        | Some m \<Rightarrow> if m = [] then ''image/png'' else m)"
proof -
  from assms(3) obtain resizeMode opts binaryPropertyName' and binaryData' :: binary_data
      and binaryBuffer form where
    name: "getNodeParameter_string this ''binaryPropertyName'' i = Inr binaryPropertyName'" and
    data: "assertBinaryData this i binaryPropertyName' = Inr binaryData'" and
    buf: "getBinaryDataBuffer this i binaryPropertyName' = Inr binaryBuffer" and
    resize: "appendResize this i resizeMode
       [(''image'', FileValue binaryBuffer (orElse (bd_fileName binaryData') ''image.png'')
                      (orElse (bd_mimeType binaryData') ''image/png''))] = Inr form" and
    body: "body (p_requestOptions p) = Some (appendOptions opts form)"
    by (elim prepared_form) blast
  from name data assms(1,2) have same: "binaryPropertyName' = binaryPropertyName"
    "binaryData' = binaryData" by simp_all
  have "getAll form ''image'' =
      [FileValue binaryBuffer (orElse (bd_fileName binaryData) ''image.png'')
         (orElse (bd_mimeType binaryData) ''image/png'')]"
  proof (cases "resizeMode = ''scale''")
    case True
    with resize same show ?thesis by (auto elim!: appendResize_scale)
  next
    case False
    with resize same show ?thesis by (auto elim!: appendResize_custom)
  qed
  then have "getAll (appendOptions opts form) ''image'' =
      [FileValue binaryBuffer (orElse (bd_fileName binaryData) ''image.png'')
         (orElse (bd_mimeType binaryData) ''image/png'')]"
    by (simp add: getAll_appendOptions_other)
  with buf body same show ?thesis
    by (simp add: orElse_def)
qed

lemma processItem_Inr:
  assumes "processItem this i = Inr entry"
  obtains p where "prepareRequest this i = Inr p" "completeItem this i p = Inr entry"
  using assms by (auto simp: processItem_def andThen_Inr_iff)

lemma completeItem_Inr:
  assumes "completeItem this i p = Inr entry"
  obtains response imageBuffer binaryOutput where
    "httpRequest_json this i (p_requestOptions p) = Inr response"
    "httpRequest_buffer this i
       \<lparr> http_method = ''GET'', url = r_url (result response), headers = [],
         body = None, encoding = Some ''arraybuffer'' \<rparr> = Inr imageBuffer"
    "prepareBinaryData this i imageBuffer
       (replace_ext (p_fileName p) @ ''_upscaled.'' @ r_fileExt (result response))
       (r_mimeType (result response)) = Inr binaryOutput"
    "json entry =
       [(''original'', original response),
        (''result'', JObject
           [(''size'', JNumber (r_size (result response))),
            (''width'', JNumber (r_width (result response))),
            (''height'', JNumber (r_height (result response))),
            (''mimeType'', JString (r_mimeType (result response))),
            (''fileExt'', JString (r_fileExt (result response)))])]"
    "binary entry =
       Some [(orElse (outputBinaryPropertyName (p_options p)) ''data'', binaryOutput)]"
    "pairedItem entry = Some \<lparr> item = i \<rparr>"
  using assms by (auto simp: completeItem_def andThen_Inr_iff Let_def)

lemma replace_ext_strips:
  assumes "ext \<noteq> []" "CHR ''.'' \<notin> set ext"
  shows "replace_ext (base @ CHR ''.'' # ext) = base"
  using assms by (induction base) auto

lemma replace_ext_changes:
  assumes "replace_ext s \<noteq> s"
  shows "\<exists>base ext. s = base @ CHR ''.'' # ext \<and> ext \<noteq> [] \<and> CHR ''.'' \<notin> set ext"
  using assms
proof (induction s)
  case Nil
  then show ?case by simp
next
  case (Cons c cs)
  show ?case
  proof (cases "c = CHR ''.'' \<and> cs \<noteq> [] \<and> CHR ''.'' \<notin> set cs")
    case True
    then have "c # cs = [] @ CHR ''.'' # cs \<and> cs \<noteq> [] \<and> CHR ''.'' \<notin> set cs" by simp
    then show ?thesis by blast
  next
    case False
    with Cons.prems have "replace_ext cs \<noteq> cs" by auto
    with Cons.IH obtain base ext where
      "cs = base @ CHR ''.'' # ext" "ext \<noteq> []" "CHR ''.'' \<notin> set ext" by blast
    then have "c # cs = (c # base) @ CHR ''.'' # ext \<and> ext \<noteq> [] \<and> CHR ''.'' \<notin> set ext"
      by simp
    then show ?thesis by blast
  qed
qed

text \<open>
  Claim C6.  The entry of a successful item has the JSON \<^verbatim>\<open>{original, result}\<close>, where
  \<^verbatim>\<open>original\<close> is the \<^verbatim>\<open>original\<close> of the response to the upload request, unchanged, and
  \<^verbatim>\<open>result\<close> is an object with exactly the keys \<^verbatim>\<open>size\<close>, \<^verbatim>\<open>width\<close>, \<^verbatim>\<open>height\<close>,
  \<^verbatim>\<open>mimeType\<close>, \<^verbatim>\<open>fileExt\<close>, each with the value of that member of the response's
  \<^verbatim>\<open>result\<close>; it has no key \<^verbatim>\<open>url\<close>.
\<close>

theorem output_json:
  assumes "processItem this i = Inr entry"
  shows "\<exists>p response fields.
           prepareRequest this i = Inr p
         \<and> httpRequest_json this i (p_requestOptions p) = Inr response
         \<and> json entry = [(''original'', original response), (''result'', JObject fields)]
         \<and> fields =
              [(''size'', JNumber (r_size (result response))),
               (''width'', JNumber (r_width (result response))),
               (''height'', JNumber (r_height (result response))),
               (''mimeType'', JString (r_mimeType (result response))),
               (''fileExt'', JString (r_fileExt (result response)))]
         \<and> map fst fields = [''size'', ''width'', ''height'', ''mimeType'', ''fileExt'']
         \<and> ''url'' \<notin> set (map fst fields)
         \<and> map_of (json entry) ''original'' = Some (original response)"
proof -
  from assms obtain p where p: "prepareRequest this i = Inr p"
    and complete: "completeItem this i p = Inr entry"
    by (rule processItem_Inr)
  from complete obtain response where
    "httpRequest_json this i (p_requestOptions p) = Inr response"
    "json entry =
       [(''original'', original response),
        (''result'', JObject
           [(''size'', JNumber (r_size (result response))),
            (''width'', JNumber (r_width (result response))),
            (''height'', JNumber (r_height (result response))),
            (''mimeType'', JString (r_mimeType (result response))),
            (''fileExt'', JString (r_fileExt (result response)))])]"
    by (elim completeItem_Inr) blast
  with p show ?thesis by simp
qed

text \<open>
  Claim C7.  For a successful item let \<open>fileName\<close> be the resolved input file name (the
  attachment's, or \<^verbatim>\<open>image.png\<close>) and \<open>baseName\<close> what the source's \<^verbatim>\<open>replace\<close> leaves of
  it.  The attachment of the entry is what the host's packager returns for the
  downloaded bytes under the file name \<open>baseName\<close> followed by \<^verbatim>\<open>_upscaled.\<close> and the
  response's \<^verbatim>\<open>result.fileExt\<close>, with the MIME type \<^verbatim>\<open>result.mimeType\<close>.  \<open>baseName\<close> is
  \<open>fileName\<close> without its last dot-extension: when \<open>fileName\<close> is \<open>base\<close>, a dot, and
  a non-empty \<open>ext\<close> without a dot, then \<open>baseName\<close> is \<open>base\<close>; when \<open>fileName\<close>
  has no such extension, \<open>baseName\<close> is \<open>fileName\<close>.  When the attachment has no file
  name, \<open>baseName\<close> is \<^verbatim>\<open>image\<close>.
\<close>

theorem output_file_name:
  assumes "getNodeParameter_string this ''binaryPropertyName'' i = Inr binaryPropertyName"
    and "assertBinaryData this i binaryPropertyName = Inr binaryData"
    and "processItem this i = Inr entry"
  shows "\<exists>fileName baseName p response imageBuffer key attachment.
           fileName = (case bd_fileName binaryData of
                         None \<Rightarrow> ''image.png''
                       | Some f \<Rightarrow> if f = [] then ''image.png'' else f)
         \<and> baseName = replace_ext fileName
         \<and> prepareRequest this i = Inr p
         \<and> httpRequest_json this i (p_requestOptions p) = Inr response
         \<and> httpRequest_buffer this i
              \<lparr> http_method = ''GET'', url = r_url (result response), headers = [],
                body = None, encoding = Some ''arraybuffer'' \<rparr> = Inr imageBuffer
         \<and> prepareBinaryData this i imageBuffer
              (baseName @ ''_upscaled.'' @ r_fileExt (result response))
              (r_mimeType (result response)) = Inr attachment
         \<and> binary entry = Some [(key, attachment)]
         \<and> (bd_fileName binaryData = None \<longrightarrow> baseName = ''image'')
         \<and> (\<forall>base ext. fileName = base @ ''.'' @ ext \<and> ext \<noteq> [] \<and> CHR ''.'' \<notin> set ext
               \<longrightarrow> baseName = base)
         \<and> ((\<nexists>base ext. fileName = base @ ''.'' @ ext \<and> ext \<noteq> [] \<and> CHR ''.'' \<notin> set ext)
               \<longrightarrow> baseName = fileName)"
proof -
  from assms(3) obtain p where p: "prepareRequest this i = Inr p"
    and complete: "completeItem this i p = Inr entry"
    by (rule processItem_Inr)
  from p obtain binaryPropertyName' and binaryData' :: binary_data where
    "getNodeParameter_string this ''binaryPropertyName'' i = Inr binaryPropertyName'"
    "assertBinaryData this i binaryPropertyName' = Inr binaryData'"
    "p_fileName p = orElse (bd_fileName binaryData') ''image.png''"
    by (elim prepareRequest_Inr) blast
  with assms(1,2) have name: "p_fileName p = orElse (bd_fileName binaryData) ''image.png''"
    by simp
  define fileName where "fileName = orElse (bd_fileName binaryData) ''image.png''"
  from complete obtain response imageBuffer binaryOutput where
    upload: "httpRequest_json this i (p_requestOptions p) = Inr response" and
    download: "httpRequest_buffer this i
       \<lparr> http_method = ''GET'', url = r_url (result response), headers = [],
         body = None, encoding = Some ''arraybuffer'' \<rparr> = Inr imageBuffer" and
    "prepareBinaryData this i imageBuffer
       (replace_ext (p_fileName p) @ ''_upscaled.'' @ r_fileExt (result response))
       (r_mimeType (result response)) = Inr binaryOutput" and
    stored: "binary entry =
       Some [(orElse (outputBinaryPropertyName (p_options p)) ''data'', binaryOutput)]"
    by (elim completeItem_Inr) blast
  then have packed: "prepareBinaryData this i imageBuffer
       (replace_ext fileName @ ''_upscaled.'' @ r_fileExt (result response))
       (r_mimeType (result response)) = Inr binaryOutput"
    by (simp add: name fileName_def)
  have resolved: "fileName = (case bd_fileName binaryData of
                         None \<Rightarrow> ''image.png''
                       | Some f \<Rightarrow> if f = [] then ''image.png'' else f)"
    by (simp add: fileName_def orElse_def)
  have default: "bd_fileName binaryData = None \<longrightarrow> replace_ext fileName = ''image''"
    by (simp add: fileName_def orElse_def)
  have strips: "\<forall>base ext. fileName = base @ ''.'' @ ext \<and> ext \<noteq> [] \<and> CHR ''.'' \<notin> set ext
               \<longrightarrow> replace_ext fileName = base"
    by (auto simp: replace_ext_strips)
  have keeps: "(\<nexists>base ext. fileName = base @ ''.'' @ ext \<and> ext \<noteq> [] \<and> CHR ''.'' \<notin> set ext)
               \<longrightarrow> replace_ext fileName = fileName"
    using replace_ext_changes [of fileName] by auto
  show ?thesis
    by (rule exI [of _ fileName], rule exI [of _ "replace_ext fileName"], rule exI [of _ p],
        rule exI [of _ response], rule exI [of _ imageBuffer],
        rule exI [of _ "orElse (outputBinaryPropertyName (p_options p)) ''data''"],
        rule exI [of _ binaryOutput])
       (intro conjI refl resolved p upload download packed stored default strips keeps)
qed

text \<open>
  Claim C9, as the code has it.  The \<^verbatim>\<open>binary\<close> object of a successful entry has exactly
  one key, which holds the attachment returned by the host's packager.  The key is
  \<^verbatim>\<open>options.outputBinaryPropertyName\<close> when that is set to a non-empty string, and
  \<^verbatim>\<open>data\<close> when it is unset or empty.  So the key \<^verbatim>\<open>data\<close> is absent whenever the
  attachment is stored under another key, and present when the option is set to
  \<^verbatim>\<open>data\<close> itself, which is the default the node's schema offers for the option.
\<close>

theorem output_binary_key:
  assumes "getNodeParameter_object this ''options'' i = Inr opts"
    and "processItem this i = Inr entry"
  shows "\<exists>key attachment imageBuffer name mime.
           prepareBinaryData this i imageBuffer name mime = Inr attachment
         \<and> binary entry = Some [(key, attachment)]
         \<and> (\<forall>k. outputBinaryPropertyName opts = Some k \<and> k \<noteq> [] \<longrightarrow> key = k)
         \<and> (outputBinaryPropertyName opts = None \<or> outputBinaryPropertyName opts = Some []
               \<longrightarrow> key = ''data'')
         \<and> (key \<noteq> ''data'' \<longrightarrow> map_of [(key, attachment)] ''data'' = None)"
proof -
  from assms(2) obtain p where p: "prepareRequest this i = Inr p"
    and complete: "completeItem this i p = Inr entry"
    by (rule processItem_Inr)
  from p obtain opts' where
    "getNodeParameter_object this ''options'' i = Inr opts'" "p_options p = opts'"
    by (elim prepareRequest_Inr) blast
  with assms(1) have opts: "p_options p = opts" by simp
  from complete obtain response :: upscale_response and imageBuffer binaryOutput where
    "prepareBinaryData this i imageBuffer
       (replace_ext (p_fileName p) @ ''_upscaled.'' @ r_fileExt (result response))
       (r_mimeType (result response)) = Inr binaryOutput"
    "binary entry =
       Some [(orElse (outputBinaryPropertyName (p_options p)) ''data'', binaryOutput)]"
    by (elim completeItem_Inr) blast
  then show ?thesis
    unfolding opts by (auto simp: orElse_def)
qed

subsection \<open>Concrete runs\<close>

text \<open>
  The tests \<^verbatim>\<open>should send removeMetadata=1 when true\<close> and \<^verbatim>\<open>=0 when false\<close>, and the
  run without options.
\<close>

theorem removeMetadata_field_witness:
  "prepareRequest
     (sampleHost (defaultSample \<lparr> s_options := noOptions \<lparr> removeMetadata := Some True \<rparr> \<rparr>)) 0
     = Inr (samplePrepared ''photo.png'' (noOptions \<lparr> removeMetadata := Some True \<rparr>)
              [sampleImage, (''scale'', TextValue ''2''), (''removeMetadata'', TextValue ''1'')])
   \<and> getAll [sampleImage, (''scale'', TextValue ''2''), (''removeMetadata'', TextValue ''1'')]
        ''removeMetadata'' = [TextValue ''1'']
   \<and> prepareRequest
     (sampleHost (defaultSample \<lparr> s_options := noOptions \<lparr> removeMetadata := Some False \<rparr> \<rparr>)) 0
     = Inr (samplePrepared ''photo.png'' (noOptions \<lparr> removeMetadata := Some False \<rparr>)
              [sampleImage, (''scale'', TextValue ''2''), (''removeMetadata'', TextValue ''0'')])
   \<and> getAll [sampleImage, (''scale'', TextValue ''2''), (''removeMetadata'', TextValue ''0'')]
        ''removeMetadata'' = [TextValue ''0'']
   \<and> prepareRequest (sampleHost defaultSample) 0
     = Inr (samplePrepared ''photo.png'' noOptions [sampleImage, (''scale'', TextValue ''2'')])
   \<and> getAll [sampleImage, (''scale'', TextValue ''2'')] ''removeMetadata'' = []"
proof -
  let ?t = "sampleHost (defaultSample \<lparr> s_options := noOptions \<lparr> removeMetadata := Some True \<rparr> \<rparr>)"
  let ?f = "sampleHost (defaultSample \<lparr> s_options := noOptions \<lparr> removeMetadata := Some False \<rparr> \<rparr>)"
  let ?u = "sampleHost defaultSample"
  have t: "prepareRequest ?t 0
     = Inr (samplePrepared ''photo.png'' (noOptions \<lparr> removeMetadata := Some True \<rparr>)
              [sampleImage, (''scale'', TextValue ''2''), (''removeMetadata'', TextValue ''1'')])"
    by (simp add: run_sample String_number_2)
  have f: "prepareRequest ?f 0
     = Inr (samplePrepared ''photo.png'' (noOptions \<lparr> removeMetadata := Some False \<rparr>)
              [sampleImage, (''scale'', TextValue ''2''), (''removeMetadata'', TextValue ''0'')])"
    by (simp add: run_sample String_number_2)
  have u: "prepareRequest ?u 0
     = Inr (samplePrepared ''photo.png'' noOptions [sampleImage, (''scale'', TextValue ''2'')])"
    by (simp add: run_sample String_number_2)
  have "getAll [sampleImage, (''scale'', TextValue ''2''), (''removeMetadata'', TextValue ''1'')]
        ''removeMetadata'' = [TextValue ''1'']"
    using removeMetadata_field [OF t]
    by (simp add: sampleHost_def defaultSample_def noOptions_def samplePrepared_def
          del: getAll_Cons getAll_Nil)
  moreover
  have "getAll [sampleImage, (''scale'', TextValue ''2''), (''removeMetadata'', TextValue ''0'')]
        ''removeMetadata'' = [TextValue ''0'']"
    using removeMetadata_field [OF f]
    by (simp add: sampleHost_def defaultSample_def noOptions_def samplePrepared_def
          del: getAll_Cons getAll_Nil)
  moreover
  have "getAll [sampleImage, (''scale'', TextValue ''2'')] ''removeMetadata'' = []"
    using removeMetadata_field [OF u]
    by (simp add: sampleHost_def defaultSample_def noOptions_def samplePrepared_def
          del: getAll_Cons getAll_Nil)
  ultimately show ?thesis using t f u by simp
qed

text \<open>
  The test \<^verbatim>\<open>should upscale with scale mode (4x)\<close>.
\<close>

theorem scale_mode_form_witness:
  "getNodeParameter_string (sampleHost (defaultSample \<lparr> s_scale := safe 4 \<rparr>)) ''resizeMode'' 0
     = Inr ''scale''
   \<and> getNodeParameter_number (sampleHost (defaultSample \<lparr> s_scale := safe 4 \<rparr>)) ''scale'' 0 = Inr (safe 4)
   \<and> prepareRequest (sampleHost (defaultSample \<lparr> s_scale := safe 4 \<rparr>)) 0
     = Inr (samplePrepared ''photo.png'' noOptions [sampleImage, (''scale'', TextValue ''4'')])
   \<and> getAll [sampleImage, (''scale'', TextValue ''4'')] ''scale'' = [TextValue ''4'']
   \<and> getAll [sampleImage, (''scale'', TextValue ''4'')] ''customWidth'' = []
   \<and> getAll [sampleImage, (''scale'', TextValue ''4'')] ''customHeight'' = []
   \<and> getAll [sampleImage, (''scale'', TextValue ''4'')] ''objectFit'' = []"
proof -
  let ?h = "sampleHost (defaultSample \<lparr> s_scale := safe 4 \<rparr>)"
  have mode: "getNodeParameter_string ?h ''resizeMode'' 0 = Inr ''scale''"
    and scale: "getNodeParameter_number ?h ''scale'' 0 = Inr (safe 4)"
    by (simp_all add: sampleHost_def defaultSample_def)
  have run: "prepareRequest ?h 0
     = Inr (samplePrepared ''photo.png'' noOptions [sampleImage, (''scale'', TextValue ''4'')])"
    by (simp add: run_sample String_number_4)
  from scale_mode_form [OF mode run] scale
  have "getAll [sampleImage, (''scale'', TextValue ''4'')] ''scale'' = [TextValue ''4'']
   \<and> getAll [sampleImage, (''scale'', TextValue ''4'')] ''customWidth'' = []
   \<and> getAll [sampleImage, (''scale'', TextValue ''4'')] ''customHeight'' = []
   \<and> getAll [sampleImage, (''scale'', TextValue ''4'')] ''objectFit'' = []"
    by (simp add: samplePrepared_def String_number_4 del: getAll_Cons getAll_Nil)
  with mode scale run show ?thesis by simp
qed

lemma String_number_1920: "String_number (safe 1920) = ''1920''"
  by (simp add: String_number_safe MAX_SAFE_INTEGER_def numeral_of_def digits_small digits_large)

lemma String_number_1080: "String_number (safe 1080) = ''1080''"
  by (simp add: String_number_safe MAX_SAFE_INTEGER_def numeral_of_def digits_small digits_large)

text \<open>
  The test \<^verbatim>\<open>should upscale with custom dimensions mode\<close>.
\<close>

theorem custom_dimensions_form_witness:
  "getNodeParameter_string
     (sampleHost (defaultSample \<lparr> s_resizeMode := ''customDimensions'',
        s_customWidth := safe 3840, s_customHeight := safe 2160,
        s_objectFit := ''contain'' \<rparr>)) ''resizeMode'' 0
     = Inr ''customDimensions''
   \<and> prepareRequest
     (sampleHost (defaultSample \<lparr> s_resizeMode := ''customDimensions'',
        s_customWidth := safe 3840, s_customHeight := safe 2160,
        s_objectFit := ''contain'' \<rparr>)) 0
     = Inr (samplePrepared ''photo.png'' noOptions
              [sampleImage, (''customWidth'', TextValue ''3840''),
               (''customHeight'', TextValue ''2160''), (''objectFit'', TextValue ''contain'')])
   \<and> getAll [sampleImage, (''customWidth'', TextValue ''3840''),
               (''customHeight'', TextValue ''2160''), (''objectFit'', TextValue ''contain'')]
        ''customWidth'' = [TextValue ''3840'']
   \<and> getAll [sampleImage, (''customWidth'', TextValue ''3840''),
               (''customHeight'', TextValue ''2160''), (''objectFit'', TextValue ''contain'')]
        ''customHeight'' = [TextValue ''2160'']
   \<and> getAll [sampleImage, (''customWidth'', TextValue ''3840''),
               (''customHeight'', TextValue ''2160''), (''objectFit'', TextValue ''contain'')]
        ''objectFit'' = [TextValue ''contain'']
   \<and> getAll [sampleImage, (''customWidth'', TextValue ''3840''),
               (''customHeight'', TextValue ''2160''), (''objectFit'', TextValue ''contain'')]
        ''scale'' = []
   \<and> Rep_safe_integer (Abs_safe_integer 3840) = 3840
   \<and> Rep_safe_integer (Abs_safe_integer 2160) = 2160
   \<and> decimal ''3840'' = 3840 \<and> decimal ''2160'' = 2160"
proof -
  let ?h = "sampleHost (defaultSample \<lparr> s_resizeMode := ''customDimensions'',
        s_customWidth := safe 3840, s_customHeight := safe 2160,
        s_objectFit := ''contain'' \<rparr>)"
  let ?form = "[sampleImage, (''customWidth'', TextValue ''3840''),
               (''customHeight'', TextValue ''2160''), (''objectFit'', TextValue ''contain'')]"
  have mode: "getNodeParameter_string ?h ''resizeMode'' 0 = Inr ''customDimensions''"
    by (simp add: sampleHost_def defaultSample_def)
  have run: "prepareRequest ?h 0 = Inr (samplePrepared ''photo.png'' noOptions ?form)"
    by (simp add: run_sample String_number_3840 String_number_2160)
  have reps: "Rep_safe_integer (Abs_safe_integer 3840) = 3840"
    "Rep_safe_integer (Abs_safe_integer 2160) = 2160"
    by (simp_all add: Rep_safe MAX_SAFE_INTEGER_def)
  from custom_dimensions_form [OF mode run]
  obtain customWidth customHeight objectFit form where
    "getNodeParameter_number ?h ''customWidth'' 0 = Inr customWidth"
    "getNodeParameter_number ?h ''customHeight'' 0 = Inr customHeight"
    "getNodeParameter_string ?h ''objectFit'' 0 = Inr objectFit"
    "body (p_requestOptions (samplePrepared ''photo.png'' noOptions ?form)) = Some form" and
    fields: "getAll form ''customWidth'' = [TextValue (String_number customWidth)]"
      "getAll form ''customHeight'' = [TextValue (String_number customHeight)]"
      "getAll form ''objectFit'' = [TextValue objectFit]"
      "getAll form ''scale'' = []" and
    width: "\<forall>n. customWidth = SafeInteger n \<and> 0 \<le> Rep_safe_integer n \<longrightarrow>
               decimal (String_number customWidth) = nat (Rep_safe_integer n)
             \<and> set (String_number customWidth) \<subseteq> set ''0123456789''" and
    height: "\<forall>n. customHeight = SafeInteger n \<and> 0 \<le> Rep_safe_integer n \<longrightarrow>
               decimal (String_number customHeight) = nat (Rep_safe_integer n)
             \<and> set (String_number customHeight) \<subseteq> set ''0123456789''"
    by (elim exE conjE) (rule that; assumption)
  then have given: "customWidth = safe 3840" "customHeight = safe 2160"
    "objectFit = ''contain''" "form = ?form"
    by (simp_all add: sampleHost_def defaultSample_def samplePrepared_def)
  from fields have got: "getAll ?form ''customWidth'' = [TextValue ''3840'']"
    "getAll ?form ''customHeight'' = [TextValue ''2160'']"
    "getAll ?form ''objectFit'' = [TextValue ''contain'']"
    "getAll ?form ''scale'' = []"
    unfolding given by (simp_all only: String_number_3840 String_number_2160)
  from width have "decimal (String_number (safe 3840)) = nat (Rep_safe_integer (Abs_safe_integer 3840))"
    unfolding given by (simp add: safe_def reps)
  then have w: "decimal ''3840'' = 3840"
    by (simp add: String_number_3840 reps)
  from height have "decimal (String_number (safe 2160)) = nat (Rep_safe_integer (Abs_safe_integer 2160))"
    unfolding given by (simp add: safe_def reps)
  then have h: "decimal ''2160'' = 2160"
    by (simp add: String_number_2160 reps)
  from mode run got reps w h show ?thesis by (intro conjI)
qed

text \<open>
  The width \<^verbatim>\<open>1e21\<close>, which the schema admits (it sets the minimum 1 and no maximum):
  \<^verbatim>\<open>String(1e21)\<close> is \<^verbatim>\<open>1e+21\<close>, and that is the value of the field; it is not a string of
  decimal digits.
\<close>

theorem custom_dimensions_form_counterexample:
  "getNodeParameter_string
     (sampleHost (defaultSample \<lparr> s_resizeMode := ''customDimensions'',
        s_customWidth := OtherNumber ''1e+21'' \<rparr>)) ''resizeMode'' 0
     = Inr ''customDimensions''
   \<and> getNodeParameter_number
     (sampleHost (defaultSample \<lparr> s_resizeMode := ''customDimensions'',
        s_customWidth := OtherNumber ''1e+21'' \<rparr>)) ''customWidth'' 0
     = Inr (OtherNumber ''1e+21'')
   \<and> prepareRequest
     (sampleHost (defaultSample \<lparr> s_resizeMode := ''customDimensions'',
        s_customWidth := OtherNumber ''1e+21'' \<rparr>)) 0
     = Inr (samplePrepared ''photo.png'' noOptions
              [sampleImage, (''customWidth'', TextValue ''1e+21''),
               (''customHeight'', TextValue ''1080''), (''objectFit'', TextValue ''cover'')])
   \<and> getAll [sampleImage, (''customWidth'', TextValue ''1e+21''),
               (''customHeight'', TextValue ''1080''), (''objectFit'', TextValue ''cover'')]
        ''customWidth'' = [TextValue ''1e+21'']
   \<and> CHR ''e'' \<in> set ''1e+21''
   \<and> CHR ''e'' \<notin> set ''0123456789''
   \<and> \<not> set ''1e+21'' \<subseteq> set ''0123456789''"
  by (simp add: run_sample String_number_1080)

text \<open>
  A run with the unrecognised mode \<^verbatim>\<open>fit\<close> and the dimensions of the schema's defaults.
\<close>

theorem other_mode_takes_custom_branch_witness:
  "getNodeParameter_string (sampleHost (defaultSample \<lparr> s_resizeMode := ''fit'' \<rparr>))
     ''resizeMode'' 0 = Inr ''fit''
   \<and> prepareRequest (sampleHost (defaultSample \<lparr> s_resizeMode := ''fit'' \<rparr>)) 0
     = Inr (samplePrepared ''photo.png'' noOptions
              [sampleImage, (''customWidth'', TextValue ''1920''),
               (''customHeight'', TextValue ''1080''), (''objectFit'', TextValue ''cover'')])
   \<and> prepareRequest (sampleHost (defaultSample \<lparr> s_resizeMode := ''fit'' \<rparr>)) 0
     = prepareRequest
         (sampleHost (defaultSample \<lparr> s_resizeMode := ''fit'' \<rparr>)
            \<lparr> getNodeParameter_string := \<lambda>name j.
                 if name = ''resizeMode'' then Inr ''customDimensions''
                 else getNodeParameter_string
                        (sampleHost (defaultSample \<lparr> s_resizeMode := ''fit'' \<rparr>)) name j \<rparr>) 0
   \<and> getAll [sampleImage, (''customWidth'', TextValue ''1920''),
               (''customHeight'', TextValue ''1080''), (''objectFit'', TextValue ''cover'')]
        ''customWidth'' = [TextValue ''1920'']
   \<and> getAll [sampleImage, (''customWidth'', TextValue ''1920''),
               (''customHeight'', TextValue ''1080''), (''objectFit'', TextValue ''cover'')]
        ''customHeight'' = [TextValue ''1080'']
   \<and> getAll [sampleImage, (''customWidth'', TextValue ''1920''),
               (''customHeight'', TextValue ''1080''), (''objectFit'', TextValue ''cover'')]
        ''objectFit'' = [TextValue ''cover'']
   \<and> getAll [sampleImage, (''customWidth'', TextValue ''1920''),
               (''customHeight'', TextValue ''1080''), (''objectFit'', TextValue ''cover'')]
        ''scale'' = []"
proof -
  let ?h = "sampleHost (defaultSample \<lparr> s_resizeMode := ''fit'' \<rparr>)"
  let ?form = "[sampleImage, (''customWidth'', TextValue ''1920''),
               (''customHeight'', TextValue ''1080''), (''objectFit'', TextValue ''cover'')]"
  have mode: "getNodeParameter_string ?h ''resizeMode'' 0 = Inr ''fit''"
    by (simp add: sampleHost_def defaultSample_def)
  have other: "''fit'' \<noteq> ''scale''" by simp
  have run: "prepareRequest ?h 0 = Inr (samplePrepared ''photo.png'' noOptions ?form)"
    by (simp add: run_sample String_number_1920 String_number_1080)
  note claim = other_mode_takes_custom_branch [OF mode other]
  from claim have same: "prepareRequest ?h 0
     = prepareRequest
         (?h \<lparr> getNodeParameter_string := \<lambda>name j.
                 if name = ''resizeMode'' then Inr ''customDimensions''
                 else getNodeParameter_string ?h name j \<rparr>) 0"
    by (rule conjunct1)
  from claim have "\<exists>customWidth customHeight objectFit form.
               getNodeParameter_number ?h ''customWidth'' 0 = Inr customWidth
             \<and> getNodeParameter_number ?h ''customHeight'' 0 = Inr customHeight
             \<and> getNodeParameter_string ?h ''objectFit'' 0 = Inr objectFit
             \<and> body (p_requestOptions (samplePrepared ''photo.png'' noOptions ?form)) = Some form
             \<and> getAll form ''customWidth'' = [TextValue (String_number customWidth)]
             \<and> getAll form ''customHeight'' = [TextValue (String_number customHeight)]
             \<and> getAll form ''objectFit'' = [TextValue objectFit]
             \<and> getAll form ''scale'' = []"
    using run by blast
  then have "getAll ?form ''customWidth'' = [TextValue ''1920'']
      \<and> getAll ?form ''customHeight'' = [TextValue ''1080'']
      \<and> getAll ?form ''objectFit'' = [TextValue ''cover'']
      \<and> getAll ?form ''scale'' = []"
    by (simp add: samplePrepared_def sampleHost_def defaultSample_def
          String_number_1920 String_number_1080 del: getAll_Cons getAll_Nil)
  with mode run same show ?thesis by simp
qed

text \<open>
  The tests \<^verbatim>\<open>should use default fileName\<close> and \<^verbatim>\<open>default mimeType when binary data has
  none\<close>, and the run with \<^verbatim>\<open>photo.png\<close>.
\<close>

theorem image_part_tags_witness:
  "getNodeParameter_string
     (sampleHost (defaultSample \<lparr> s_binaryFileName := None, s_binaryMimeType := None \<rparr>))
     ''binaryPropertyName'' 0 = Inr ''data''
   \<and> assertBinaryData
     (sampleHost (defaultSample \<lparr> s_binaryFileName := None, s_binaryMimeType := None \<rparr>))
     0 ''data'' = Inr \<lparr> bd_data = ''iVBORw0KGgo='', bd_mimeType = None, bd_fileName = None \<rparr>
   \<and> prepareRequest
     (sampleHost (defaultSample \<lparr> s_binaryFileName := None, s_binaryMimeType := None \<rparr>)) 0
     = Inr (samplePrepared ''image.png'' noOptions
              [(''image'', FileValue FAKE_PNG ''image.png'' ''image/png''),
               (''scale'', TextValue ''2'')])
   \<and> getAll [(''image'', FileValue FAKE_PNG ''image.png'' ''image/png''),
             (''scale'', TextValue ''2'')] ''image''
     = [FileValue FAKE_PNG ''image.png'' ''image/png'']
   \<and> getNodeParameter_string (sampleHost defaultSample) ''binaryPropertyName'' 0 = Inr ''data''
   \<and> assertBinaryData (sampleHost defaultSample) 0 ''data''
     = Inr \<lparr> bd_data = ''iVBORw0KGgo='', bd_mimeType = Some ''image/png'',
             bd_fileName = Some ''photo.png'' \<rparr>
   \<and> prepareRequest (sampleHost defaultSample) 0
     = Inr (samplePrepared ''photo.png'' noOptions [sampleImage, (''scale'', TextValue ''2'')])
   \<and> getAll [sampleImage, (''scale'', TextValue ''2'')] ''image''
     = [FileValue FAKE_PNG ''photo.png'' ''image/png'']"
proof -
  let ?n = "sampleHost (defaultSample \<lparr> s_binaryFileName := None, s_binaryMimeType := None \<rparr>)"
  let ?d = "sampleHost defaultSample"
  have n1: "getNodeParameter_string ?n ''binaryPropertyName'' 0 = Inr ''data''"
    and n2: "assertBinaryData ?n 0 ''data''
      = Inr \<lparr> bd_data = ''iVBORw0KGgo='', bd_mimeType = None, bd_fileName = None \<rparr>"
    and d1: "getNodeParameter_string ?d ''binaryPropertyName'' 0 = Inr ''data''"
    and d2: "assertBinaryData ?d 0 ''data''
      = Inr \<lparr> bd_data = ''iVBORw0KGgo='', bd_mimeType = Some ''image/png'',
              bd_fileName = Some ''photo.png'' \<rparr>"
    by (simp_all add: sampleHost_def defaultSample_def)
  have n3: "prepareRequest ?n 0
     = Inr (samplePrepared ''image.png'' noOptions
              [(''image'', FileValue FAKE_PNG ''image.png'' ''image/png''),
               (''scale'', TextValue ''2'')])"
    by (simp add: run_sample String_number_2)
  have d3: "prepareRequest ?d 0
     = Inr (samplePrepared ''photo.png'' noOptions [sampleImage, (''scale'', TextValue ''2'')])"
    by (simp add: run_sample String_number_2)
  have "getAll [(''image'', FileValue FAKE_PNG ''image.png'' ''image/png''),
             (''scale'', TextValue ''2'')] ''image''
     = [FileValue FAKE_PNG ''image.png'' ''image/png'']"
    using image_part_tags [OF n1 n2 n3]
    by (simp add: samplePrepared_def sampleHost_def del: getAll_Cons getAll_Nil)
  moreover have "getAll [sampleImage, (''scale'', TextValue ''2'')] ''image''
     = [FileValue FAKE_PNG ''photo.png'' ''image/png'']"
    using image_part_tags [OF d1 d2 d3]
    by (simp add: samplePrepared_def sampleHost_def del: getAll_Cons getAll_Nil)
  ultimately show ?thesis using n1 n2 n3 d1 d2 d3 by simp
qed

text \<open>
  An attachment that provides the empty string as its file name: the image part is
  tagged \<^verbatim>\<open>image.png\<close>, not with the provided value.
\<close>

theorem image_part_tags_counterexample:
  "assertBinaryData (sampleHost (defaultSample \<lparr> s_binaryFileName := Some [] \<rparr>)) 0 ''data''
     = Inr \<lparr> bd_data = ''iVBORw0KGgo='', bd_mimeType = Some ''image/png'',
             bd_fileName = Some [] \<rparr>
   \<and> prepareRequest (sampleHost (defaultSample \<lparr> s_binaryFileName := Some [] \<rparr>)) 0
     = Inr (samplePrepared ''image.png'' noOptions
              [(''image'', FileValue FAKE_PNG ''image.png'' ''image/png''),
               (''scale'', TextValue ''2'')])
   \<and> getAll [(''image'', FileValue FAKE_PNG ''image.png'' ''image/png''),
             (''scale'', TextValue ''2'')] ''image''
     \<noteq> [FileValue FAKE_PNG [] ''image/png'']"
  by (simp add: run_sample String_number_2)

text \<open>
  The JSON of the test \<^verbatim>\<open>should upscale with scale mode (2x)\<close>.
\<close>

theorem output_json_witness:
  "processItem (sampleHost defaultSample) 0 = Inr (sampleEntry 0)
   \<and> httpRequest_json (sampleHost defaultSample) 0
       (p_requestOptions
          (samplePrepared ''photo.png'' noOptions [sampleImage, (''scale'', TextValue ''2'')]))
     = Inr API_RESPONSE
   \<and> json (sampleEntry 0) =
       [(''original'', JObject
           [(''size'', JNumber 8), (''width'', JNumber 100), (''height'', JNumber 100),
            (''mimeType'', JString ''image/png''), (''fileExt'', JString ''png'')]),
        (''result'', JObject
           [(''size'', JNumber 32), (''width'', JNumber 200), (''height'', JNumber 200),
            (''mimeType'', JString ''image/webp''), (''fileExt'', JString ''webp'')])]"
proof -
  let ?h = "sampleHost defaultSample"
  have run: "processItem ?h 0 = Inr (sampleEntry 0)"
    by (simp add: run_sample sampleEntry_def String_number_2 replace_ext_photo)
  have prep: "prepareRequest ?h 0
     = Inr (samplePrepared ''photo.png'' noOptions [sampleImage, (''scale'', TextValue ''2'')])"
    by (simp add: run_sample String_number_2)
  from output_json [OF run] obtain p response fields where
    "prepareRequest ?h 0 = Inr p"
    "httpRequest_json ?h 0 (p_requestOptions p) = Inr response"
    "json (sampleEntry 0) = [(''original'', original response), (''result'', JObject fields)]"
    "fields =
       [(''size'', JNumber (r_size (result response))),
        (''width'', JNumber (r_width (result response))),
        (''height'', JNumber (r_height (result response))),
        (''mimeType'', JString (r_mimeType (result response))),
        (''fileExt'', JString (r_fileExt (result response)))]"
    by blast
  with prep have "httpRequest_json ?h 0
       (p_requestOptions
          (samplePrepared ''photo.png'' noOptions [sampleImage, (''scale'', TextValue ''2'')]))
     = Inr API_RESPONSE
   \<and> json (sampleEntry 0) =
       [(''original'', original API_RESPONSE),
        (''result'', JObject
           [(''size'', JNumber (r_size (result API_RESPONSE))),
            (''width'', JNumber (r_width (result API_RESPONSE))),
            (''height'', JNumber (r_height (result API_RESPONSE))),
            (''mimeType'', JString (r_mimeType (result API_RESPONSE))),
            (''fileExt'', JString (r_fileExt (result API_RESPONSE)))])]"
    by (auto simp: sampleHost_def defaultSample_def)
  with run show ?thesis by (simp add: API_RESPONSE_def)
qed

text \<open>
  An attachment without file name: the packager is given \<^verbatim>\<open>image_upscaled.webp\<close>.
\<close>

theorem output_file_name_witness:
  "getNodeParameter_string (sampleHost (defaultSample \<lparr> s_binaryFileName := None \<rparr>))
     ''binaryPropertyName'' 0 = Inr ''data''
   \<and> assertBinaryData (sampleHost (defaultSample \<lparr> s_binaryFileName := None \<rparr>)) 0 ''data''
     = Inr \<lparr> bd_data = ''iVBORw0KGgo='', bd_mimeType = Some ''image/png'', bd_fileName = None \<rparr>
   \<and> processItem (sampleHost (defaultSample \<lparr> s_binaryFileName := None \<rparr>)) 0
     = Inr (sampleEntry 0
              \<lparr> binary := Some [(''data'', \<lparr> bd_data = ''base64data'',
                                          bd_mimeType = Some ''image/webp'',
                                          bd_fileName = Some ''image_upscaled.webp'' \<rparr>)] \<rparr>)
   \<and> prepareBinaryData (sampleHost (defaultSample \<lparr> s_binaryFileName := None \<rparr>)) 0
       DOWNLOADED_IMAGE (replace_ext ''image.png'' @ ''_upscaled.'' @ ''webp'') ''image/webp''
     = Inr \<lparr> bd_data = ''base64data'', bd_mimeType = Some ''image/webp'',
             bd_fileName = Some ''image_upscaled.webp'' \<rparr>
   \<and> replace_ext ''image.png'' = ''image''"
proof -
  let ?h = "sampleHost (defaultSample \<lparr> s_binaryFileName := None \<rparr>)"
  let ?entry = "sampleEntry 0
              \<lparr> binary := Some [(''data'', \<lparr> bd_data = ''base64data'',
                                          bd_mimeType = Some ''image/webp'',
                                          bd_fileName = Some ''image_upscaled.webp'' \<rparr>)] \<rparr>"
  have name: "getNodeParameter_string ?h ''binaryPropertyName'' 0 = Inr ''data''"
    and data: "assertBinaryData ?h 0 ''data''
     = Inr \<lparr> bd_data = ''iVBORw0KGgo='', bd_mimeType = Some ''image/png'', bd_fileName = None \<rparr>"
    by (simp_all add: sampleHost_def defaultSample_def)
  have run: "processItem ?h 0 = Inr ?entry"
    by (simp add: run_sample sampleEntry_def String_number_2)
  from output_file_name [OF name data run]
  obtain fileName baseName and p :: prepared and response imageBuffer key attachment where
    facts: "fileName = (case bd_fileName \<lparr> bd_data = ''iVBORw0KGgo='',
                 bd_mimeType = Some ''image/png'', bd_fileName = None \<rparr> of
                         None \<Rightarrow> ''image.png''
                       | Some f \<Rightarrow> if f = [] then ''image.png'' else f)"
      "baseName = replace_ext fileName"
      "httpRequest_json ?h 0 (p_requestOptions p) = Inr response"
      "httpRequest_buffer ?h 0
              \<lparr> http_method = ''GET'', url = r_url (result response), headers = [],
                body = None, encoding = Some ''arraybuffer'' \<rparr> = Inr imageBuffer"
      "prepareBinaryData ?h 0 imageBuffer
              (baseName @ ''_upscaled.'' @ r_fileExt (result response))
              (r_mimeType (result response)) = Inr attachment"
      "binary ?entry = Some [(key, attachment)]"
      "bd_fileName \<lparr> bd_data = ''iVBORw0KGgo='',
                 bd_mimeType = Some ''image/png'', bd_fileName = None \<rparr> = None
         \<longrightarrow> baseName = ''image''"
    by (elim exE conjE) (rule that; assumption)
  from facts(1,2,7) have base: "replace_ext ''image.png'' = ''image''" by simp
  from facts(3,4) have "response = API_RESPONSE" "imageBuffer = DOWNLOADED_IMAGE"
    by (simp_all add: sampleHost_def defaultSample_def)
  with facts(1,2,5) have "prepareBinaryData ?h 0
       DOWNLOADED_IMAGE (replace_ext ''image.png'' @ ''_upscaled.'' @ ''webp'') ''image/webp''
     = Inr attachment"
    by (simp add: API_RESPONSE_def)
  moreover from facts(6) have "attachment = \<lparr> bd_data = ''base64data'',
      bd_mimeType = Some ''image/webp'', bd_fileName = Some ''image_upscaled.webp'' \<rparr>"
    by (auto simp: sampleEntry_def)
  ultimately have "prepareBinaryData ?h 0
       DOWNLOADED_IMAGE (replace_ext ''image.png'' @ ''_upscaled.'' @ ''webp'') ''image/webp''
     = Inr \<lparr> bd_data = ''base64data'', bd_mimeType = Some ''image/webp'',
             bd_fileName = Some ''image_upscaled.webp'' \<rparr>"
    by (simp only:)
  with name data run base show ?thesis by simp
qed

text \<open>
  The test \<^verbatim>\<open>should use custom output binary field name\<close>.
\<close>

theorem output_binary_key_witness:
  "getNodeParameter_object
     (sampleHost (defaultSample
        \<lparr> s_options := noOptions \<lparr> outputBinaryPropertyName := Some ''upscaledImage'' \<rparr> \<rparr>))
     ''options'' 0 = Inr (noOptions \<lparr> outputBinaryPropertyName := Some ''upscaledImage'' \<rparr>)
   \<and> processItem
     (sampleHost (defaultSample
        \<lparr> s_options := noOptions \<lparr> outputBinaryPropertyName := Some ''upscaledImage'' \<rparr> \<rparr>)) 0
     = Inr (sampleEntry 0
              \<lparr> binary := Some [(''upscaledImage'', \<lparr> bd_data = ''base64data'',
                                          bd_mimeType = Some ''image/webp'',
                                          bd_fileName = Some ''photo_upscaled.webp'' \<rparr>)] \<rparr>)
   \<and> map_of [(''upscaledImage'', \<lparr> bd_data = ''base64data'',
                                    bd_mimeType = Some ''image/webp'',
                                    bd_fileName = Some ''photo_upscaled.webp'' \<rparr>)] ''data''
     = None"
proof -
  let ?opts = "noOptions \<lparr> outputBinaryPropertyName := Some ''upscaledImage'' \<rparr>"
  let ?h = "sampleHost (defaultSample \<lparr> s_options := ?opts \<rparr>)"
  let ?att = "\<lparr> bd_data = ''base64data'', bd_mimeType = Some ''image/webp'',
               bd_fileName = Some ''photo_upscaled.webp'' \<rparr>"
  let ?entry = "sampleEntry 0 \<lparr> binary := Some [(''upscaledImage'', ?att)] \<rparr>"
  have opts: "getNodeParameter_object ?h ''options'' 0 = Inr ?opts"
    by (simp add: sampleHost_def defaultSample_def)
  have run: "processItem ?h 0 = Inr ?entry"
    by (simp add: run_sample sampleEntry_def String_number_2 replace_ext_photo)
  from output_binary_key [OF opts run] obtain key attachment where
    stored: "binary ?entry = Some [(key, attachment)]" and
    named: "\<forall>k. outputBinaryPropertyName ?opts = Some k \<and> k \<noteq> [] \<longrightarrow> key = k" and
    absent: "key \<noteq> ''data'' \<longrightarrow> map_of [(key, attachment)] ''data'' = None"
    by blast
  from named have "key = ''upscaledImage''" by (simp add: noOptions_def)
  with stored absent have "map_of [(''upscaledImage'', ?att)] ''data'' = None"
    by (simp add: sampleEntry_def)
  with opts run show ?thesis by simp
qed

text \<open>
  The option set to \<^verbatim>\<open>data\<close>: the key \<^verbatim>\<open>data\<close> is present.  The option set to the
  empty string: the attachment is stored under \<^verbatim>\<open>data\<close>, not under the empty key.
\<close>

theorem output_binary_key_counterexample:
  "getNodeParameter_object
     (sampleHost (defaultSample
        \<lparr> s_options := noOptions \<lparr> outputBinaryPropertyName := Some ''data'' \<rparr> \<rparr>))
     ''options'' 0 = Inr (noOptions \<lparr> outputBinaryPropertyName := Some ''data'' \<rparr>)
   \<and> processItem
     (sampleHost (defaultSample
        \<lparr> s_options := noOptions \<lparr> outputBinaryPropertyName := Some ''data'' \<rparr> \<rparr>)) 0
     = Inr (sampleEntry 0)
   \<and> binary (sampleEntry 0)
     = Some [(''data'', \<lparr> bd_data = ''base64data'', bd_mimeType = Some ''image/webp'',
                          bd_fileName = Some ''photo_upscaled.webp'' \<rparr>)]
   \<and> map_of [(''data'', \<lparr> bd_data = ''base64data'', bd_mimeType = Some ''image/webp'',
                          bd_fileName = Some ''photo_upscaled.webp'' \<rparr>)] ''data''
     \<noteq> None
   \<and> getNodeParameter_object
     (sampleHost (defaultSample
        \<lparr> s_options := noOptions \<lparr> outputBinaryPropertyName := Some [] \<rparr> \<rparr>))
     ''options'' 0 = Inr (noOptions \<lparr> outputBinaryPropertyName := Some [] \<rparr>)
   \<and> processItem
     (sampleHost (defaultSample
        \<lparr> s_options := noOptions \<lparr> outputBinaryPropertyName := Some [] \<rparr> \<rparr>)) 0
     = Inr (sampleEntry 0)"
  by (simp add: run_sample sampleEntry_def String_number_2 replace_ext_photo)

end
